theory Spec2Isabelle
  imports Main "HOL-Library.AList"
begin

section \<open>Errors\<close>

text \<open>
  Go errors are values.  \<open>ErrIsNonCrioContainer\<close> is the package-level sentinel of
  \<^verbatim>\<open>internal/lib/container_server.go\<close>; \<open>ErrNameReserved\<close> is the registrar's
  already-reserved error; \<open>External\<close> carries an error produced by a collaborator
  outside the modelled code (storage, JSON decoding, the runtime, system calls);
  \<open>Errorf\<close> and \<open>Wrap\<close> are \<^verbatim>\<open>fmt.Errorf\<close> and \<^verbatim>\<open>errors.Wrap\<close> with the
  source's format string and its arguments.
\<close>

datatype error =
    ErrIsNonCrioContainer
  | ErrNameReserved
  | External string
  | Errorf string "arg list"
  | Wrap error string
and arg = S string | L "string list" | E error

text \<open>
  A call either returns (with Go's \<^verbatim>\<open>error\<close> result, \<open>None\<close> for \<^verbatim>\<open>nil\<close>) or
  panics (a nil pointer dereference).
\<close>

datatype outcome = Return "error option" | Panic string

section \<open>Identifier indices\<close>

text \<open>
  Modelled from the spec: the name registrar (\<^verbatim>\<open>registrar.Registrar\<close>, vendored, not
  among the sources).  Section 4.1: \<open>reserve(name, id)\<close> is exclusive per name,
  re-reserving the same pair is idempotent, re-reserving with a different id fails;
  \<open>release(name)\<close> with no prior reserve is a no-op.
\<close>

type_synonym registrar = "string \<rightharpoonup> string"

definition Reserve :: "string \<Rightarrow> string \<Rightarrow> registrar \<Rightarrow> error + registrar" where
  "Reserve name key r =
     (case r name of
        Some k \<Rightarrow> if k \<noteq> key then Inl ErrNameReserved else Inr r
      | None \<Rightarrow> Inr (r(name \<mapsto> key)))"

definition Release :: "string \<Rightarrow> registrar \<Rightarrow> registrar" where
  "Release name r = r(name := None)"

text \<open>
  The truncated-ID index (\<^verbatim>\<open>truncindex.TruncIndex\<close>, vendored) is kept as the list of
  the full ids it stores; its \<^verbatim>\<open>Add\<close> is a parameter of the environment below.
\<close>

type_synonym truncindex = "string list"

section \<open>Entities and the in-memory stores\<close>

text \<open>
  Modelled from the spec: \<^verbatim>\<open>oci.Container\<close> and \<^verbatim>\<open>sandbox.Sandbox\<close> are declared
  outside the sources; the records keep the attributes of section 3 that the modelled
  functions read or write.
\<close>

record Container =
  ctr_ID :: string
  ctr_Name :: string
  ctr_Sandbox :: string
  ctr_Image :: string
  ctr_MountPoint :: string
  ctr_SeccompProfilePath :: string
  ctr_State :: string
  ctr_Created :: bool

text \<open>
  A namespace handle (\<^verbatim>\<open>Namespace\<close> of the sandbox package).  \<open>ns\<close> is the wrapped
  handle of the CNI plugin library, \<open>None\<close> for a nil interface; an open handle is
  identified by the path it was opened from.
\<close>

datatype NS = NSHandle string

record Namespace =
  ns :: "NS option"
  closed :: bool
  initialized :: bool
  nsType :: string
  nsPath :: string

record Sandbox =
  sb_ID :: string
  sb_Name :: string
  sb_ProcessLabel :: string
  sb_RuntimeHandler :: string
  sb_containers :: "string list"
  sb_infraContainer :: "Container option"
  sb_netns :: "Namespace option"
  sb_ipcns :: "Namespace option"
  sb_utsns :: "Namespace option"
  sb_userns :: "Namespace option"
  sb_created :: bool
  sb_stopped :: bool

text \<open>
  Modelled from the spec: the memory stores (\<^verbatim>\<open>oci.NewMemoryStore\<close>,
  \<^verbatim>\<open>sandbox.NewMemoryStore\<close>) are maps from id to entity with \<open>add\<close>, \<open>get\<close>,
  \<open>delete\<close> and \<open>list\<close> (section 4.2).  An association list with one entry per key
  makes \<open>list\<close> computable; \<open>get\<close> of a missing id is Go's \<^verbatim>\<open>nil\<close>.
\<close>

type_synonym 'a store = "(string \<times> 'a) list"

definition store_Add :: "string \<Rightarrow> 'a \<Rightarrow> 'a store \<Rightarrow> 'a store" where
  "store_Add k v st = AList.update k v st"

definition store_Get :: "string \<Rightarrow> 'a store \<Rightarrow> 'a option" where
  "store_Get k st = map_of st k"

definition store_Delete :: "string \<Rightarrow> 'a store \<Rightarrow> 'a store" where
  "store_Delete k st = AList.delete k st"

definition store_List :: "'a store \<Rightarrow> 'a list" where
  "store_List st = map snd st"

text \<open>
  Modelled from the spec: a sandbox's container set is ordered by insertion; adding a
  container appends it to the owning sandbox's list, deleting removes it from that list.
\<close>

definition Sandbox_AddContainer :: "Container \<Rightarrow> Sandbox \<Rightarrow> Sandbox" where
  "Sandbox_AddContainer ctr sb =
     (if ctr_ID ctr \<in> set (sb_containers sb) then sb
      else sb\<lparr>sb_containers := sb_containers sb @ [ctr_ID ctr]\<rparr>)"

definition Sandbox_RemoveContainer :: "Container \<Rightarrow> Sandbox \<Rightarrow> Sandbox" where
  "Sandbox_RemoveContainer ctr sb =
     sb\<lparr>sb_containers := removeAll (ctr_ID ctr) (sb_containers sb)\<rparr>"

section \<open>The container server\<close>

text \<open>
  What the state lock and the platform hooks did is recorded in \<open>events\<close>, in call
  order, so that statements about ordering and locking can be made.
\<close>

datatype event =
    StateLock
  | StateUnlock
  | AddSandboxPlatformCall string
  | RemoveSandboxPlatformCall string
  | SandboxesDelete string

text \<open>
  \<^verbatim>\<open>ContainerServer\<close> with its \<^verbatim>\<open>containerServerState\<close> inlined: the two name
  registrars, the two ID indices, the three stores and the MCS level counts.
\<close>

record ContainerServer =
  ctrNameIndex :: registrar
  ctrIDIndex :: truncindex
  podNameIndex :: registrar
  podIDIndex :: truncindex
  containers :: "Container store"
  infraContainers :: "Container store"
  sandboxes :: "Sandbox store"
  processLevels :: "string \<rightharpoonup> int"
  events :: "event list"

text \<open>\<^verbatim>\<open>ReserveContainerName\<close>, \<^verbatim>\<open>ReleaseContainerName\<close>, \<^verbatim>\<open>ReservePodName\<close>,
  \<^verbatim>\<open>ReleasePodName\<close> (the warning written to the log is not modelled).\<close>

definition ReserveContainerName ::
  "string \<Rightarrow> string \<Rightarrow> ContainerServer \<Rightarrow> (error + string) \<times> ContainerServer" where
  "ReserveContainerName ident name c =
     (case Reserve name ident (ctrNameIndex c) of
        Inl err \<Rightarrow>
          (Inl (Errorf ''error reserving ctr name %s for id %s: %v'' [S name, S ident, E err]), c)
      | Inr r \<Rightarrow> (Inr name, c\<lparr>ctrNameIndex := r\<rparr>))"

definition ReleaseContainerName :: "string \<Rightarrow> ContainerServer \<Rightarrow> ContainerServer" where
  "ReleaseContainerName name c = c\<lparr>ctrNameIndex := Release name (ctrNameIndex c)\<rparr>"

definition ReservePodName ::
  "string \<Rightarrow> string \<Rightarrow> ContainerServer \<Rightarrow> (error + string) \<times> ContainerServer" where
  "ReservePodName ident name c =
     (case Reserve name ident (podNameIndex c) of
        Inl err \<Rightarrow>
          (Inl (Errorf ''error reserving pod name %s for id %s: %v'' [S name, S ident, E err]), c)
      | Inr r \<Rightarrow> (Inr name, c\<lparr>podNameIndex := r\<rparr>))"

definition ReleasePodName :: "string \<Rightarrow> ContainerServer \<Rightarrow> ContainerServer" where
  "ReleasePodName name c = c\<lparr>podNameIndex := Release name (podNameIndex c)\<rparr>"

text \<open>
  \<^verbatim>\<open>AddContainer\<close> and \<^verbatim>\<open>RemoveContainer\<close>.  The sandbox is held by pointer in the
  source, so the change made through \<^verbatim>\<open>newSandbox\<close> is a change of the stored entry.
\<close>

definition AddContainer :: "Container \<Rightarrow> ContainerServer \<Rightarrow> ContainerServer" where
  "AddContainer ctr c =
     (case store_Get (ctr_Sandbox ctr) (sandboxes c) of
        None \<Rightarrow> c
      | Some newSandbox \<Rightarrow>
          c\<lparr>sandboxes :=
               store_Add (ctr_Sandbox ctr) (Sandbox_AddContainer ctr newSandbox) (sandboxes c),
            containers := store_Add (ctr_ID ctr) ctr (containers c)\<rparr>)"

definition AddInfraContainer :: "Container \<Rightarrow> ContainerServer \<Rightarrow> ContainerServer" where
  "AddInfraContainer ctr c = c\<lparr>infraContainers := store_Add (ctr_ID ctr) ctr (infraContainers c)\<rparr>"

definition GetContainer :: "string \<Rightarrow> ContainerServer \<Rightarrow> Container option" where
  "GetContainer ident c = store_Get ident (containers c)"


definition RemoveContainer :: "Container \<Rightarrow> ContainerServer \<Rightarrow> ContainerServer" where
  "RemoveContainer ctr c =
     (let sbID = ctr_Sandbox ctr in
      case store_Get sbID (sandboxes c) of
        None \<Rightarrow> c
      | Some sb \<Rightarrow>
          c\<lparr>sandboxes := store_Add sbID (Sandbox_RemoveContainer ctr sb) (sandboxes c),
            containers := store_Delete (ctr_ID ctr) (containers c)\<rparr>)"

text \<open>\<^verbatim>\<open>listContainers\<close> and \<^verbatim>\<open>ListContainers\<close>; the returned error is always nil.
  The two nested loops of the source are the two recursions.\<close>

definition listContainers :: "ContainerServer \<Rightarrow> Container list" where
  "listContainers c = store_List (containers c)"

fun applyFilters :: "('a \<Rightarrow> bool) list \<Rightarrow> 'a \<Rightarrow> 'a list \<Rightarrow> 'a list" where
  "applyFilters [] container filteredContainers = filteredContainers"
| "applyFilters (flt # filters) container filteredContainers =
     applyFilters filters container
       (if flt container then filteredContainers @ [container] else filteredContainers)"

fun filterLoop :: "('a \<Rightarrow> bool) list \<Rightarrow> 'a list \<Rightarrow> 'a list \<Rightarrow> 'a list" where
  "filterLoop filters [] filteredContainers = filteredContainers"
| "filterLoop filters (container # rest) filteredContainers =
     filterLoop filters rest (applyFilters filters container filteredContainers)"

definition ListContainers :: "(Container \<Rightarrow> bool) list \<Rightarrow> ContainerServer \<Rightarrow> Container list" where
  "ListContainers filters c =
     (let cs = listContainers c in
      if length filters = 0 then cs else filterLoop filters cs [])"

section \<open>Namespaces of a sandbox\<close>

text \<open>
  System calls and helper runs made by the namespace code, in call order.  \<open>SysUnmount\<close>
  is \<^verbatim>\<open>unix.Unmount\<close> with its flags, \<open>UtilsUnmount\<close> is \<^verbatim>\<open>utils.Unmount\<close>.
\<close>

datatype syscall =
    Exec string "string list"
  | SysUnmount string nat
  | NSClose NS
  | UtilsUnmount string
  | RemoveAll string

definition MNT_DETACH :: nat where
  "MNT_DETACH = 2"

text \<open>
  What a path refers to.  A namespace file is a bind mount or a \<^verbatim>\<open>/proc\<close> entry of a
  namespace of one kind.
\<close>

datatype fsobj = NsFile string | Directory | RegularFile

text \<open>
  The operating system as the namespace code sees it: the file system, whether opening a
  path fails, the helper's output and exit error, and the outcome of every call that
  can fail (given the calls made so far).
\<close>

record Sys =
  fs :: "string \<rightharpoonup> fsobj"
  os_Open :: "string \<Rightarrow> string option"
  uuid_New :: string
  filepath_Join :: "string list \<Rightarrow> string"
  exec_Output :: "string \<Rightarrow> string list \<Rightarrow> string \<times> string option"
  unix_Unmount :: "syscall list \<Rightarrow> string \<Rightarrow> nat \<Rightarrow> string option"
  ns_Close :: "syscall list \<Rightarrow> NS \<Rightarrow> string option"
  utils_Unmount :: "syscall list \<Rightarrow> string \<Rightarrow> string option"
  os_RemoveAll :: "syscall list \<Rightarrow> string \<Rightarrow> string option"

text \<open>
  Modelled from the spec: \<^verbatim>\<open>nspkg.IsNSorErr\<close> and \<^verbatim>\<open>nspkg.GetNS\<close> of the vendored CNI
  plugin library.  Section 4.3: the handle is obtained by opening the path and
  verifying via the NSFS magic that the file is a namespace.  The file-system magic
  tells that a file is a namespace, not of which kind.
\<close>

definition IsNSorErr :: "Sys \<Rightarrow> string \<Rightarrow> error option" where
  "IsNSorErr sys nspath =
     (case fs sys nspath of
        None \<Rightarrow> Some (External ''failed to Statfs: no such file or directory'')
      | Some (NsFile k) \<Rightarrow> None
      | Some _ \<Rightarrow> Some (External ''unknown FS magic''))"

definition GetNS :: "Sys \<Rightarrow> string \<Rightarrow> error + NS" where
  "GetNS sys nspath =
     (case IsNSorErr sys nspath of
        Some err \<Rightarrow> Inl err
      | None \<Rightarrow>
          (case os_Open sys nspath of
             Some e \<Rightarrow> Inl (External e)
           | None \<Rightarrow> Inr (NSHandle nspath)))"

text \<open>\<^verbatim>\<open>Initialize\<close>, \<^verbatim>\<open>Path\<close>, \<^verbatim>\<open>Type\<close>, \<^verbatim>\<open>Close\<close> of \<^verbatim>\<open>Namespace\<close>.  The receiver is
  never nil in the modelled calls.\<close>

definition Initialize :: "Namespace \<Rightarrow> Namespace" where
  "Initialize n = n\<lparr>closed := False, initialized := True\<rparr>"

definition Path :: "Namespace \<Rightarrow> string" where
  "Path n = (if ns n = None then [] else nsPath n)"

definition Close :: "Sys \<Rightarrow> Namespace \<Rightarrow> syscall list \<Rightarrow> error option \<times> syscall list" where
  "Close sys n w =
     (case ns n of
        None \<Rightarrow> (None, w)
      | Some h \<Rightarrow> (map_option External (ns_Close sys w h), w @ [NSClose h]))"

text \<open>\<^verbatim>\<open>getNamespace\<close>: the path is checked to be a namespace and opened.\<close>

definition getNamespace :: "Sys \<Rightarrow> string \<Rightarrow> error + Namespace" where
  "getNamespace sys nsPath' =
     (case IsNSorErr sys nsPath' of
        Some err \<Rightarrow> Inl err
      | None \<Rightarrow>
          (case GetNS sys nsPath' of
             Inl err \<Rightarrow> Inl err
           | Inr h \<Rightarrow>
               Inr \<lparr>ns = Some h, closed = False, initialized = False, nsType = [],
                    nsPath = nsPath'\<rparr>))"

text \<open>\<^verbatim>\<open>Namespace.Remove\<close> (the mutex is not modelled: calls are sequential).\<close>

definition Remove ::
  "Sys \<Rightarrow> Namespace \<Rightarrow> syscall list \<Rightarrow> error option \<times> Namespace \<times> syscall list" where
  "Remove sys n w =
     (if closed n then (None, n, w)
      else
        (case Close sys n w of
           (Some err, w1) \<Rightarrow> (Some err, n, w1)
         | (None, w1) \<Rightarrow>
             (let n1 = n\<lparr>closed := True\<rparr>;
                  w2 = w1 @ [UtilsUnmount (Path n1)]
              in case utils_Unmount sys w1 (Path n1) of
                   Some e \<Rightarrow> (Some (Wrap (External e) ''failed to umount namespace path''), n1, w2)
                 | None \<Rightarrow>
                     if Path n1 \<noteq> [] then
                       (case os_RemoveAll sys w2 (Path n1) of
                          Some e \<Rightarrow>
                            (Some (Wrap (External e) ''failed to remove namespace path''), n1,
                             w2 @ [RemoveAll (Path n1)])
                        | None \<Rightarrow> (None, n1, w2 @ [RemoveAll (Path n1)]))
                     else (None, n1, w2))))"

text \<open>
  The namespace kinds (\<^verbatim>\<open>NSType\<close> is a string type; its constants are declared next to
  the sandbox and appear as literals in the tests) and \<^verbatim>\<open>typeToArg\<close> of
  \<^verbatim>\<open>pinNamespaces\<close>.
\<close>

definition NETNS :: string where "NETNS = ''net''"
definition IPCNS :: string where "IPCNS = ''ipc''"
definition UTSNS :: string where "UTSNS = ''uts''"
definition USERNS :: string where "USERNS = ''user''"

definition typeToArg :: "string \<rightharpoonup> string" where
  "typeToArg = [IPCNS \<mapsto> ''-i'', UTSNS \<mapsto> ''-u'', USERNS \<mapsto> ''-U'', NETNS \<mapsto> ''-n'']"

record Config =
  NamespacesDir :: string
  PinnsPath :: string

record namespaceInfo =
  info_path :: string
  info_nsType :: string

text \<open>The first loop of \<^verbatim>\<open>pinNamespaces\<close>: one flag and one would-be path per kind.\<close>

fun pinnsArgsLoop ::
  "Sys \<Rightarrow> Config \<Rightarrow> string \<Rightarrow> string list \<Rightarrow> string list \<Rightarrow> namespaceInfo list
     \<Rightarrow> error + (string list \<times> namespaceInfo list)" where
  "pinnsArgsLoop sys cfg pinnedNamespace [] pinnsArgs mountedNamespaces =
     Inr (pinnsArgs, mountedNamespaces)"
| "pinnsArgsLoop sys cfg pinnedNamespace (t # nsTypes) pinnsArgs mountedNamespaces =
     (case typeToArg t of
        None \<Rightarrow> Inl (Errorf ''Invalid namespace type: %s'' [S t])
      | Some a \<Rightarrow>
          pinnsArgsLoop sys cfg pinnedNamespace nsTypes (pinnsArgs @ [a])
            (mountedNamespaces @
              [\<lparr>info_path = filepath_Join sys [NamespacesDir cfg, t @ ''ns'', pinnedNamespace],
                info_nsType = t\<rparr>]))"

text \<open>The cleanup loop after a failure of the helper.\<close>

fun cleanupLoop ::
  "Sys \<Rightarrow> namespaceInfo list \<Rightarrow> string list \<Rightarrow> syscall list \<Rightarrow> string list \<times> syscall list" where
  "cleanupLoop sys [] failedUmounts w = (failedUmounts, w)"
| "cleanupLoop sys (info # infos) failedUmounts w =
     cleanupLoop sys infos
       (case unix_Unmount sys w (info_path info) MNT_DETACH of
          Some unmountErr \<Rightarrow> failedUmounts @ [info_path info]
        | None \<Rightarrow> failedUmounts)
       (w @ [SysUnmount (info_path info) MNT_DETACH])"

text \<open>The last loop: a handle for every pinned path.\<close>

fun getNSLoop :: "Sys \<Rightarrow> namespaceInfo list \<Rightarrow> Namespace list \<Rightarrow> error + Namespace list" where
  "getNSLoop sys [] returnedNamespaces = Inr returnedNamespaces"
| "getNSLoop sys (info # infos) returnedNamespaces =
     (case GetNS sys (info_path info) of
        Inl err \<Rightarrow> Inl err
      | Inr ret \<Rightarrow>
          getNSLoop sys infos
            (returnedNamespaces @
              [\<lparr>ns = Some ret, closed = False, initialized = False,
                nsType = info_nsType info, nsPath = info_path info\<rparr>]))"

definition pinNamespaces ::
  "Sys \<Rightarrow> string list \<Rightarrow> Config \<Rightarrow> syscall list \<Rightarrow> (error + Namespace list) \<times> syscall list" where
  "pinNamespaces sys nsTypes cfg w =
     (let pinnedNamespace = uuid_New sys;
          pinnsArgs = [''-d'', NamespacesDir cfg, ''-f'', pinnedNamespace]
      in case pinnsArgsLoop sys cfg pinnedNamespace nsTypes pinnsArgs [] of
           Inl err \<Rightarrow> (Inl err, w)
         | Inr (pinnsArgs', mountedNamespaces) \<Rightarrow>
             (let pinns = PinnsPath cfg;
                  w1 = w @ [Exec pinns pinnsArgs']
              in case exec_Output sys pinns pinnsArgs' of
                   (output, Some err) \<Rightarrow>
                     (case cleanupLoop sys mountedNamespaces [] w1 of
                        (failedUmounts, w2) \<Rightarrow>
                          if length failedUmounts \<noteq> 0 then
                            (Inl (Errorf ''failed to cleanup %v after pinns failure %s %v''
                                    [L failedUmounts, S output, E (External err)]), w2)
                          else
                            (Inl (Errorf ''failed to pin namespaces %v: %s %v''
                                    [L nsTypes, S output, E (External err)]), w2))
                 | (output, None) \<Rightarrow> (getNSLoop sys mountedNamespaces [], w1)))"

text \<open>
  Modelled from the spec: the join operations of the sandbox (\<^verbatim>\<open>NetNsJoin\<close>,
  \<^verbatim>\<open>IpcNsJoin\<close>, \<^verbatim>\<open>UtsNsJoin\<close>, \<^verbatim>\<open>UserNsJoin\<close>), declared outside the sources.
  Section 4.3: given a path, verify it refers to a namespace; if the sandbox already
  has a managed handle of that kind, fail; otherwise record it.  The verification is
  \<open>getNamespace\<close> above.
\<close>

definition nsJoin :: "Sys \<Rightarrow> string \<Rightarrow> string \<Rightarrow> error + Namespace" where
  "nsJoin sys nspath t =
     (case getNamespace sys nspath of
        Inl err \<Rightarrow> Inl err
      | Inr n \<Rightarrow> Inr (n\<lparr>nsType := t\<rparr>))"

definition NetNsJoin :: "Sys \<Rightarrow> string \<Rightarrow> Sandbox \<Rightarrow> error option \<times> Sandbox" where
  "NetNsJoin sys nspath sb =
     (if sb_netns sb \<noteq> None then
        (Some (Errorf ''sandbox already has a network namespace, cannot join another'' []), sb)
      else case nsJoin sys nspath NETNS of
             Inl err \<Rightarrow> (Some err, sb)
           | Inr n \<Rightarrow> (None, sb\<lparr>sb_netns := Some n\<rparr>))"

definition IpcNsJoin :: "Sys \<Rightarrow> string \<Rightarrow> Sandbox \<Rightarrow> error option \<times> Sandbox" where
  "IpcNsJoin sys nspath sb =
     (if sb_ipcns sb \<noteq> None then
        (Some (Errorf ''sandbox already has an ipc namespace, cannot join another'' []), sb)
      else case nsJoin sys nspath IPCNS of
             Inl err \<Rightarrow> (Some err, sb)
           | Inr n \<Rightarrow> (None, sb\<lparr>sb_ipcns := Some n\<rparr>))"

definition UtsNsJoin :: "Sys \<Rightarrow> string \<Rightarrow> Sandbox \<Rightarrow> error option \<times> Sandbox" where
  "UtsNsJoin sys nspath sb =
     (if sb_utsns sb \<noteq> None then
        (Some (Errorf ''sandbox already has a uts namespace, cannot join another'' []), sb)
      else case nsJoin sys nspath UTSNS of
             Inl err \<Rightarrow> (Some err, sb)
           | Inr n \<Rightarrow> (None, sb\<lparr>sb_utsns := Some n\<rparr>))"

definition UserNsJoin :: "Sys \<Rightarrow> string \<Rightarrow> Sandbox \<Rightarrow> error option \<times> Sandbox" where
  "UserNsJoin sys nspath sb =
     (if sb_userns sb \<noteq> None then
        (Some (Errorf ''sandbox already has a user namespace, cannot join another'' []), sb)
      else case nsJoin sys nspath USERNS of
             Inl err \<Rightarrow> (Some err, sb)
           | Inr n \<Rightarrow> (None, sb\<lparr>sb_userns := Some n\<rparr>))"

section \<open>Rehydration from disk\<close>

text \<open>
  The part of the OCI runtime specification (\<^verbatim>\<open>rspec.Spec\<close>) that the loaders read.
  \<^verbatim>\<open>Process\<close> and \<^verbatim>\<open>Linux\<close> are pointers and may be nil.
\<close>

record LinuxNamespace =
  lns_Type :: string
  lns_Path :: string

record Linux =
  MountLabel :: string
  Namespaces :: "LinuxNamespace list"

record Process =
  SelinuxLabel :: string

record Spec =
  spec_Annotations :: "string \<rightharpoonup> string"
  spec_Process :: "Process option"
  spec_Linux :: "Linux option"

text \<open>Reading a Go map of strings gives the empty string for a missing key.\<close>

definition ann :: "Spec \<Rightarrow> string \<Rightarrow> string" where
  "ann m k = (case spec_Annotations m k of None \<Rightarrow> [] | Some v \<Rightarrow> v)"

text \<open>The annotation keys (constants of the vendored \<^verbatim>\<open>annotations\<close> package) and the
  daemon's identifier \<^verbatim>\<open>ContainerManagerCRIO\<close>.\<close>

definition annotations_ContainerManager :: string where
  "annotations_ContainerManager = ''io.container.manager''"
definition annotations_Labels :: string where
  "annotations_Labels = ''io.kubernetes.cri-o.Labels''"
definition annotations_Name :: string where
  "annotations_Name = ''io.kubernetes.cri-o.Name''"
definition annotations_Metadata :: string where
  "annotations_Metadata = ''io.kubernetes.cri-o.Metadata''"
definition annotations_Annotations :: string where
  "annotations_Annotations = ''io.kubernetes.cri-o.Annotations''"
definition annotations_PortMappings :: string where
  "annotations_PortMappings = ''io.kubernetes.cri-o.PortMappings''"
definition annotations_NamespaceOptions :: string where
  "annotations_NamespaceOptions = ''io.kubernetes.cri-o.NamespaceOptions''"
definition annotations_RuntimeHandler :: string where
  "annotations_RuntimeHandler = ''io.kubernetes.cri-o.RuntimeHandler''"
definition annotations_SeccompProfilePath :: string where
  "annotations_SeccompProfilePath = ''io.kubernetes.cri-o.SeccompProfilePath''"
definition annotations_ContainerID :: string where
  "annotations_ContainerID = ''io.kubernetes.cri-o.ContainerID''"
definition annotations_ContainerName :: string where
  "annotations_ContainerName = ''io.kubernetes.cri-o.ContainerName''"
definition annotations_Created :: string where
  "annotations_Created = ''io.kubernetes.cri-o.Created''"
definition annotations_Image :: string where
  "annotations_Image = ''io.kubernetes.cri-o.Image''"
definition annotations_MountPoint :: string where
  "annotations_MountPoint = ''io.kubernetes.cri-o.MountPoint''"
definition annotations_Volumes :: string where
  "annotations_Volumes = ''io.kubernetes.cri-o.Volumes''"
definition annotations_SandboxID :: string where
  "annotations_SandboxID = ''io.kubernetes.cri-o.SandboxID''"

definition ContainerManagerCRIO :: string where
  "ContainerManagerCRIO = ''cri-o''"

definition NetworkNamespace :: string where "NetworkNamespace = ''network''"
definition IPCNamespace :: string where "IPCNamespace = ''ipc''"
definition UTSNamespace :: string where "UTSNamespace = ''uts''"
definition UserNamespace :: string where "UserNamespace = ''user''"

text \<open>The Go types that \<^verbatim>\<open>json.Unmarshal\<close> decodes an annotation into, where the
  decoded value itself is not part of the modelled records.\<close>

datatype json_target =
    PodSandboxMetadata
  | ContainerMetadata
  | PortMappingList
  | NamespaceOption
  | ContainerVolumeList

text \<open>
  The collaborators of the container server: the storage library, JSON decoding, time
  parsing, the constructors of sandbox and container, the platform hooks of the state
  store, the runtime's status refresh and the state file, SELinux, and the ID index.
  Each returns what the Go call returns; an error is the message of an external error.
\<close>

record Env =
  FromContainerDirectory :: "string \<Rightarrow> string \<Rightarrow> string + string"
  ContainerRunDirectory :: "string \<Rightarrow> string + string"
  ContainerDirectory :: "string \<Rightarrow> string + string"
  unmarshalSpec :: "string \<Rightarrow> string + Spec"
  unmarshalStringMap :: "string \<Rightarrow> string + (string \<rightharpoonup> string)"
  unmarshalOther :: "json_target \<Rightarrow> string \<Rightarrow> string option"
  time_Parse :: "string \<Rightarrow> string + nat"
  sandbox_New_err :: "string \<Rightarrow> string option"
  oci_NewContainer_err :: "string \<Rightarrow> string option"
  ManageNSLifecycle :: bool
  sys :: Sys
  addSandboxPlatform :: "Sandbox \<Rightarrow> (string \<rightharpoonup> int) \<Rightarrow> string option \<times> (string \<rightharpoonup> int)"
  removeSandboxPlatform :: "Sandbox \<Rightarrow> (string \<rightharpoonup> int) \<Rightarrow> string option \<times> (string \<rightharpoonup> int)"
  FromDisk :: "Container \<Rightarrow> string + string"
  UpdateContainerStatus :: "Container \<Rightarrow> string + string"
  writeStateFile :: "Container \<Rightarrow> string option"
  ReserveLabel :: "string \<Rightarrow> string option"
  stoppedFileExists :: "string \<Rightarrow> bool"
  TruncIndex_Add :: "string \<Rightarrow> truncindex \<Rightarrow> string + truncindex"

text \<open>\<^verbatim>\<open>AddSandbox\<close>, \<^verbatim>\<open>GetSandbox\<close>, \<^verbatim>\<open>HasSandbox\<close>, \<^verbatim>\<open>RemoveSandbox\<close>.  The deferred
  unlock runs on every return after the lock was taken.\<close>

definition AddSandbox :: "Env \<Rightarrow> Sandbox \<Rightarrow> ContainerServer \<Rightarrow> error option \<times> ContainerServer" where
  "AddSandbox env sb c =
     (let c1 = c\<lparr>sandboxes := store_Add (sb_ID sb) sb (sandboxes c)\<rparr>;
          c2 = c1\<lparr>events := events c1 @ [StateLock]\<rparr>
      in case addSandboxPlatform env sb (processLevels c2) of
           (err, levels) \<Rightarrow>
             (map_option External err,
              c2\<lparr>processLevels := levels,
                 events := events c2 @ [AddSandboxPlatformCall (sb_ID sb), StateUnlock]\<rparr>))"

definition GetSandbox :: "string \<Rightarrow> ContainerServer \<Rightarrow> Sandbox option" where
  "GetSandbox ident c = store_Get ident (sandboxes c)"

definition HasSandbox :: "string \<Rightarrow> ContainerServer \<Rightarrow> bool" where
  "HasSandbox ident c = (store_Get ident (sandboxes c) \<noteq> None)"

definition RemoveSandbox :: "Env \<Rightarrow> string \<Rightarrow> ContainerServer \<Rightarrow> error option \<times> ContainerServer" where
  "RemoveSandbox env ident c =
     (case store_Get ident (sandboxes c) of
        None \<Rightarrow> (None, c)
      | Some sb \<Rightarrow>
          (let c1 = c\<lparr>events := events c @ [StateLock]\<rparr>
           in case removeSandboxPlatform env sb (processLevels c1) of
                (Some err, levels) \<Rightarrow>
                  (Some (External err),
                   c1\<lparr>processLevels := levels,
                      events := events c1 @ [RemoveSandboxPlatformCall ident, StateUnlock]\<rparr>)
              | (None, levels) \<Rightarrow>
                  (None,
                   c1\<lparr>processLevels := levels,
                      sandboxes := store_Delete ident (sandboxes c1),
                      events := events c1 @
                        [RemoveSandboxPlatformCall ident, SandboxesDelete ident, StateUnlock]\<rparr>)))"

definition ListSandboxes :: "ContainerServer \<Rightarrow> Sandbox list" where
  "ListSandboxes c = store_List (sandboxes c)"

text \<open>\<^verbatim>\<open>isTrue\<close> and \<^verbatim>\<open>configNsPath\<close>; the latter dereferences \<^verbatim>\<open>spec.Linux\<close>.\<close>

definition isTrue :: "string \<Rightarrow> bool" where
  "isTrue annotaton = (annotaton = ''true'')"

fun namespacesLoop :: "LinuxNamespace list \<Rightarrow> string \<Rightarrow> error + string" where
  "namespacesLoop [] nsType' = Inl (Errorf ''missing networking namespace'' [])"
| "namespacesLoop (n # rest) nsType' =
     (if lns_Type n \<noteq> nsType' then namespacesLoop rest nsType'
      else if lns_Path n = [] then Inl (Errorf ''empty networking namespace'' [])
      else Inr (lns_Path n))"

definition configNsPath :: "Spec \<Rightarrow> string \<Rightarrow> (error + string) option" where
  "configNsPath spec nsType' =
     (case spec_Linux spec of
        None \<Rightarrow> None
      | Some l \<Rightarrow> Some (namespacesLoop (Namespaces l) nsType'))"

text \<open>\<^verbatim>\<open>ContainerStateFromDisk\<close> and \<^verbatim>\<open>ContainerStateToDisk\<close>.  The container is
  never nil in the modelled calls; a failed refresh before writing is only logged.\<close>

definition ContainerStateFromDisk :: "Env \<Rightarrow> Container \<Rightarrow> error option \<times> Container" where
  "ContainerStateFromDisk env ctr =
     (case FromDisk env ctr of
        Inl e \<Rightarrow> (Some (External e), ctr)
      | Inr st \<Rightarrow>
          (let ctr1 = ctr\<lparr>ctr_State := st\<rparr>
           in case UpdateContainerStatus env ctr1 of
                Inl e \<Rightarrow> (Some (External e), ctr1)
              | Inr st' \<Rightarrow> (None, ctr1\<lparr>ctr_State := st'\<rparr>)))"

definition ContainerStateToDisk :: "Env \<Rightarrow> Container \<Rightarrow> error option \<times> Container" where
  "ContainerStateToDisk env ctr =
     (let ctr1 = (case UpdateContainerStatus env ctr of
                    Inl e \<Rightarrow> ctr
                  | Inr st \<Rightarrow> ctr\<lparr>ctr_State := st\<rparr>)
      in (map_option External (writeStateFile env ctr1), ctr1))"

text \<open>
  A deferred function of the form \<^verbatim>\<open>if retErr != nil { ... }\<close>: it runs when the
  function returns an error.  During a panic the named result is still nil, so the
  guarded body does not run.
\<close>

definition deferOnError ::
  "(ContainerServer \<Rightarrow> ContainerServer) \<Rightarrow> outcome \<times> ContainerServer
     \<Rightarrow> outcome \<times> ContainerServer" where
  "deferOnError cleanup r =
     (case r of
        (Return (Some retErr), c) \<Rightarrow> (Return (Some retErr), cleanup c)
      | (out, c) \<Rightarrow> (out, c))"

text \<open>A change made through the sandbox pointer after the sandbox was stored.\<close>

definition updateSandbox ::
  "string \<Rightarrow> (Sandbox \<Rightarrow> Sandbox) \<Rightarrow> ContainerServer \<Rightarrow> ContainerServer" where
  "updateSandbox ident f c =
     (case store_Get ident (sandboxes c) of
        None \<Rightarrow> c
      | Some sb \<Rightarrow> c\<lparr>sandboxes := store_Add ident (f sb) (sandboxes c)\<rparr>)"

text \<open>
  \<^verbatim>\<open>LoadContainer\<close>, in two parts: up to the reservation of the name, and the rest, which
  runs under the deferred release of the name.
\<close>

definition LoadContainer_reserved ::
  "Env \<Rightarrow> string \<Rightarrow> Spec \<Rightarrow> string \<Rightarrow> ContainerServer \<Rightarrow> outcome \<times> ContainerServer" where
  "LoadContainer_reserved env ident m name c =
     (case unmarshalOther env ContainerMetadata (ann m annotations_Metadata) of
        Some e \<Rightarrow> (Return (Some (External e)), c)
      | None \<Rightarrow>
     (case GetSandbox (ann m annotations_SandboxID) c of
        None \<Rightarrow>
          (Return (Some (Errorf ''could not get sandbox with id %s, skipping''
                           [S (ann m annotations_SandboxID)])), c)
      | Some sb \<Rightarrow>
     (case ContainerRunDirectory env ident of
        Inl e \<Rightarrow> (Return (Some (External e)), c)
      | Inr containerPath \<Rightarrow>
     (case ContainerDirectory env ident of
        Inl e \<Rightarrow> (Return (Some (External e)), c)
      | Inr containerDir \<Rightarrow>
     (case unmarshalStringMap env (ann m annotations_Annotations) of
        Inl e \<Rightarrow> (Return (Some (External e)), c)
      | Inr kubeAnnotations \<Rightarrow>
     (case time_Parse env (ann m annotations_Created) of
        Inl e \<Rightarrow> (Return (Some (External e)), c)
      | Inr created \<Rightarrow>
     (case oci_NewContainer_err env ident of
        Some e \<Rightarrow> (Return (Some (External e)), c)
      | None \<Rightarrow>
     (let ctr = \<lparr>ctr_ID = ident, ctr_Name = name, ctr_Sandbox = sb_ID sb,
                 ctr_Image = ann m annotations_Image,
                 ctr_MountPoint = ann m annotations_MountPoint,
                 ctr_SeccompProfilePath = ann m annotations_SeccompProfilePath,
                 ctr_State = [], ctr_Created = False\<rparr>
      in case ContainerStateFromDisk env ctr of
           (Some err, ctr1) \<Rightarrow>
             (Return (Some (Errorf ''error reading container state from disk %q: %v''
                              [S (ctr_ID ctr1), E err])), c)
         | (None, ctr1) \<Rightarrow>
     (case ContainerStateToDisk env ctr1 of
        (Some err, ctr2) \<Rightarrow>
          (Return (Some (Errorf ''failed to write container state to disk %q: %v''
                           [S (ctr_ID ctr2), E err])), c)
      | (None, ctr2) \<Rightarrow>
     (let c1 = AddContainer (ctr2\<lparr>ctr_Created := True\<rparr>) c
      in case TruncIndex_Add env ident (ctrIDIndex c1) of
           Inl e \<Rightarrow> (Return (Some (External e)), c1)
         | Inr idx \<Rightarrow> (Return None, c1\<lparr>ctrIDIndex := idx\<rparr>)))))))))))"

definition LoadContainer :: "Env \<Rightarrow> string \<Rightarrow> ContainerServer \<Rightarrow> outcome \<times> ContainerServer" where
  "LoadContainer env ident c =
     (case FromContainerDirectory env ident ''config.json'' of
        Inl e \<Rightarrow> (Return (Some (External e)), c)
      | Inr config \<Rightarrow>
     (case unmarshalSpec env config of
        Inl e \<Rightarrow> (Return (Some (External e)), c)
      | Inr m \<Rightarrow>
     (if (case spec_Annotations m annotations_ContainerManager of
            Some manager \<Rightarrow> manager \<noteq> ContainerManagerCRIO
          | None \<Rightarrow> False)
      then (Return (Some ErrIsNonCrioContainer), c)
      else
     (case unmarshalStringMap env (ann m annotations_Labels) of
        Inl e \<Rightarrow> (Return (Some (External e)), c)
      | Inr labels \<Rightarrow>
     (case ReserveContainerName ident (ann m annotations_Name) c of
        (Inl err, c1) \<Rightarrow> (Return (Some err), c1)
      | (Inr name, c1) \<Rightarrow>
          deferOnError (ReleaseContainerName name)
            (LoadContainer_reserved env ident m name c1))))))"

text \<open>
  \<^verbatim>\<open>LoadSandbox\<close>, in the parts that its deferred functions delimit: the infra
  container after its name is reserved, the part after the sandbox is stored, the part
  after the pod name is reserved, and the beginning.  The local sandbox pointer is the
  value \<open>sb\<close>, written through to the store at every change.
\<close>

definition joinIfConfigured ::
  "(Sys \<Rightarrow> string \<Rightarrow> Sandbox \<Rightarrow> error option \<times> Sandbox) \<Rightarrow> Env \<Rightarrow> Spec \<Rightarrow> string \<Rightarrow> Sandbox
     \<Rightarrow> outcome \<times> Sandbox" where
  "joinIfConfigured join env m nsType' sb =
     (case configNsPath m nsType' of
        None \<Rightarrow> (Panic ''nil pointer dereference'', sb)
      | Some (Inl err) \<Rightarrow> (Return None, sb)
      | Some (Inr nsPath') \<Rightarrow>
          (case join (sys env) nsPath' sb of
             (Some nsErr, sb') \<Rightarrow> (Return (Some nsErr), sb')
           | (None, sb') \<Rightarrow> (Return None, sb')))"

definition joinNamespaces :: "Env \<Rightarrow> Spec \<Rightarrow> Sandbox \<Rightarrow> outcome \<times> Sandbox" where
  "joinNamespaces env m sb =
     (if ManageNSLifecycle env then
        (case joinIfConfigured NetNsJoin env m NetworkNamespace sb of
           (Return None, sb1) \<Rightarrow>
             (case joinIfConfigured IpcNsJoin env m IPCNamespace sb1 of
                (Return None, sb2) \<Rightarrow>
                  (case joinIfConfigured UtsNsJoin env m UTSNamespace sb2 of
                     (Return None, sb3) \<Rightarrow> joinIfConfigured UserNsJoin env m UserNamespace sb3
                   | r \<Rightarrow> r)
              | r \<Rightarrow> r)
         | r \<Rightarrow> r)
      else (Return None, sb))"

definition LoadSandbox_infra ::
  "Env \<Rightarrow> string \<Rightarrow> Spec \<Rightarrow> Sandbox \<Rightarrow> string \<Rightarrow> string \<Rightarrow> ContainerServer
     \<Rightarrow> outcome \<times> ContainerServer" where
  "LoadSandbox_infra env ident m sb processLabel cname c =
     (case time_Parse env (ann m annotations_Created) of
        Inl e \<Rightarrow> (Return (Some (External e)), c)
      | Inr created \<Rightarrow>
     (case oci_NewContainer_err env (ann m annotations_ContainerID) of
        Some e \<Rightarrow> (Return (Some (External e)), c)
      | None \<Rightarrow>
     (let scontainer = \<lparr>ctr_ID = ann m annotations_ContainerID, ctr_Name = cname,
                        ctr_Sandbox = ident, ctr_Image = ann m annotations_Image,
                        ctr_MountPoint = ann m annotations_MountPoint,
                        ctr_SeccompProfilePath = [], ctr_State = [], ctr_Created = False\<rparr>
      in case (if ann m annotations_Volumes \<noteq> []
               then unmarshalOther env ContainerVolumeList (ann m annotations_Volumes)
               else None) of
           Some e \<Rightarrow>
             (Return (Some (Errorf ''failed to unmarshal container volumes: %v''
                              [E (External e)])), c)
         | None \<Rightarrow>
     (case ContainerStateFromDisk env scontainer of
        (Some err, sc1) \<Rightarrow>
          (Return (Some (Errorf ''error reading sandbox state from disk %q: %v''
                           [S (ctr_ID sc1), E err])), c)
      | (None, sc1) \<Rightarrow>
     (case ContainerStateToDisk env sc1 of
        (Some err, sc2) \<Rightarrow>
          (Return (Some (Errorf ''failed to write container state to disk %q: %v''
                           [S (ctr_ID sc2), E err])), c)
      | (None, sc2) \<Rightarrow>
     (let sb1 = sb\<lparr>sb_created := True\<rparr>;
          c1 = updateSandbox ident (\<lambda>_. sb1) c
      in case ReserveLabel env processLabel of
           Some e \<Rightarrow> (Return (Some (External e)), c1)
         | None \<Rightarrow>
     (if sb_infraContainer sb1 \<noteq> None
      then (Return (Some (Errorf ''sandbox already has an infra container'' [])), c1)
      else
     (let sb2 = sb1\<lparr>sb_infraContainer := Some sc2\<rparr>;
          sb3 = sb2\<lparr>sb_stopped := stoppedFileExists env ident\<rparr>;
          c2 = updateSandbox ident (\<lambda>_. sb3) c1
      in case TruncIndex_Add env (ctr_ID sc2) (ctrIDIndex c2) of
           Inl e \<Rightarrow> (Return (Some (External e)), c2)
         | Inr idx \<Rightarrow>
     (let c3 = c2\<lparr>ctrIDIndex := idx\<rparr>
      in case TruncIndex_Add env ident (podIDIndex c3) of
           Inl e \<Rightarrow> (Return (Some (External e)), c3)
         | Inr pidx \<Rightarrow> (Return None, c3\<lparr>podIDIndex := pidx\<rparr>))))))))))"

definition LoadSandbox_added ::
  "Env \<Rightarrow> string \<Rightarrow> Spec \<Rightarrow> Sandbox \<Rightarrow> string \<Rightarrow> ContainerServer
     \<Rightarrow> outcome \<times> ContainerServer" where
  "LoadSandbox_added env ident m sb processLabel c =
     (case ContainerRunDirectory env ident of
        Inl e \<Rightarrow> (Return (Some (External e)), c)
      | Inr sandboxPath \<Rightarrow>
     (case ContainerDirectory env ident of
        Inl e \<Rightarrow> (Return (Some (External e)), c)
      | Inr sandboxDir \<Rightarrow>
     (case ReserveContainerName (ann m annotations_ContainerID)
             (ann m annotations_ContainerName) c of
        (Inl err, c1) \<Rightarrow> (Return (Some err), c1)
      | (Inr cname, c1) \<Rightarrow>
          deferOnError (ReleaseContainerName cname)
            (LoadSandbox_infra env ident m sb processLabel cname c1))))"

definition LoadSandbox_named ::
  "Env \<Rightarrow> string \<Rightarrow> Spec \<Rightarrow> string \<Rightarrow> ContainerServer \<Rightarrow> outcome \<times> ContainerServer" where
  "LoadSandbox_named env ident m name c =
     (case unmarshalOther env PodSandboxMetadata (ann m annotations_Metadata) of
        Some e \<Rightarrow>
          (Return (Some (Wrap (External e)
             (''error unmarshalling '' @ annotations_Metadata @ '' annotation''))), c)
      | None \<Rightarrow>
     (case spec_Process m of
        None \<Rightarrow> (Panic ''nil pointer dereference'', c)
      | Some process \<Rightarrow>
     (case spec_Linux m of
        None \<Rightarrow> (Panic ''nil pointer dereference'', c)
      | Some linux \<Rightarrow>
     (case unmarshalStringMap env (ann m annotations_Annotations) of
        Inl e \<Rightarrow>
          (Return (Some (Wrap (External e)
             (''error unmarshalling '' @ annotations_Annotations @ '' annotation''))), c)
      | Inr kubeAnnotations \<Rightarrow>
     (case unmarshalOther env PortMappingList (ann m annotations_PortMappings) of
        Some e \<Rightarrow>
          (Return (Some (Wrap (External e)
             (''error unmarshalling '' @ annotations_PortMappings @ '' annotation''))), c)
      | None \<Rightarrow>
     (case unmarshalOther env NamespaceOption (ann m annotations_NamespaceOptions) of
        Some e \<Rightarrow>
          (Return (Some (Wrap (External e)
             (''error unmarshalling '' @ annotations_NamespaceOptions @ '' annotation''))), c)
      | None \<Rightarrow>
     (case sandbox_New_err env ident of
        Some e \<Rightarrow> (Return (Some (External e)), c)
      | None \<Rightarrow>
     (let sb = \<lparr>sb_ID = ident, sb_Name = name, sb_ProcessLabel = SelinuxLabel process,
                sb_RuntimeHandler = ann m annotations_RuntimeHandler, sb_containers = [],
                sb_infraContainer = None, sb_netns = None, sb_ipcns = None,
                sb_utsns = None, sb_userns = None, sb_created = False, sb_stopped = False\<rparr>
      in case joinNamespaces env m sb of
           (Panic p, sb') \<Rightarrow> (Panic p, c)
         | (Return (Some nsErr), sb') \<Rightarrow> (Return (Some nsErr), c)
         | (Return None, sb') \<Rightarrow>
     (case AddSandbox env sb' c of
        (Some err, c1) \<Rightarrow> (Return (Some err), c1)
      | (None, c1) \<Rightarrow>
          deferOnError (\<lambda>c'. snd (RemoveSandbox env (sb_ID sb') c'))
            (LoadSandbox_added env ident m sb' (SelinuxLabel process) c1))))))))))"

definition LoadSandbox :: "Env \<Rightarrow> string \<Rightarrow> ContainerServer \<Rightarrow> outcome \<times> ContainerServer" where
  "LoadSandbox env ident c =
     (case FromContainerDirectory env ident ''config.json'' of
        Inl e \<Rightarrow> (Return (Some (External e)), c)
      | Inr config \<Rightarrow>
     (case unmarshalSpec env config of
        Inl e \<Rightarrow> (Return (Some (Wrap (External e) ''error unmarshalling sandbox spec'')), c)
      | Inr m \<Rightarrow>
     (case unmarshalStringMap env (ann m annotations_Labels) of
        Inl e \<Rightarrow>
          (Return (Some (Wrap (External e)
             (''error unmarshalling '' @ annotations_Labels @ '' annotation''))), c)
      | Inr labels \<Rightarrow>
     (case ReservePodName ident (ann m annotations_Name) c of
        (Inl err, c1) \<Rightarrow> (Return (Some err), c1)
      | (Inr name, c1) \<Rightarrow>
          deferOnError (ReleasePodName name) (LoadSandbox_named env ident m name c1)))))"

section \<open>The checkpoint/restore client\<close>

















section \<open>Initial state, store invariant and example inputs\<close>

text \<open>The state that \<^verbatim>\<open>New\<close> builds: empty registrars, indices, stores and level counts.\<close>

definition New :: ContainerServer where
  "New = \<lparr>ctrNameIndex = Map.empty, ctrIDIndex = [], podNameIndex = Map.empty, podIDIndex = [],
          containers = [], infraContainers = [], sandboxes = [], processLevels = Map.empty,
          events = []\<rparr>"

text \<open>
  A container store holds one entry per id, and every container is stored under its own
  id: \<^verbatim>\<open>AddContainer\<close> is the only writer and it stores \<^verbatim>\<open>ctr\<close> under \<^verbatim>\<open>ctr.ID()\<close>.
\<close>

definition store_wf :: "Container store \<Rightarrow> bool" where
  "store_wf st = (distinct (map fst st) \<and> list_all (\<lambda>(k, v). ctr_ID v = k) st)"

text \<open>Example inputs: a container, its sandbox, a server holding both, and an environment
  in which every collaborator succeeds.\<close>

definition ex_ctr :: Container where
  "ex_ctr = \<lparr>ctr_ID = ''c1'', ctr_Name = ''redis'', ctr_Sandbox = ''p1'', ctr_Image = ''redis'',
             ctr_MountPoint = [], ctr_SeccompProfilePath = [], ctr_State = [],
             ctr_Created = True\<rparr>"

definition ex_sandbox :: Sandbox where
  "ex_sandbox = \<lparr>sb_ID = ''p1'', sb_Name = ''pod-a'', sb_ProcessLabel = [],
                 sb_RuntimeHandler = [], sb_containers = [], sb_infraContainer = None,
                 sb_netns = None, sb_ipcns = None, sb_utsns = None, sb_userns = None,
                 sb_created = True, sb_stopped = False\<rparr>"

definition ex_server :: ContainerServer where
  "ex_server = New\<lparr>sandboxes := [(''p1'', ex_sandbox)]\<rparr>"

definition ex_sys :: Sys where
  "ex_sys = \<lparr>fs = [''/proc/self/ns/net'' \<mapsto> NsFile ''net'',
                    ''/proc/self/ns/ipc'' \<mapsto> NsFile ''ipc'',
                    ''/tmp'' \<mapsto> Directory],
             os_Open = (\<lambda>p. None),
             uuid_New = ''0b1c'',
             filepath_Join = (\<lambda>elems. concat (map (\<lambda>e. ''/'' @ e) elems)),
             exec_Output = (\<lambda>p args. ([], Some ''exit status 1'')),
             unix_Unmount = (\<lambda>w p flags. None),
             ns_Close = (\<lambda>w h. None),
             utils_Unmount = (\<lambda>w p. None),
             os_RemoveAll = (\<lambda>w p. None)\<rparr>"

text \<open>Three decoded \<^verbatim>\<open>config.json\<close> files: a container without a manager marker, a
  container marked by another manager, and a sandbox marked by another manager.\<close>

definition ex_ctr_spec :: Spec where
  "ex_ctr_spec = \<lparr>spec_Annotations = [annotations_Name \<mapsto> ''redis'',
                                       annotations_SandboxID \<mapsto> ''p1''],
                  spec_Process = None, spec_Linux = None\<rparr>"

definition ex_foreign_spec :: Spec where
  "ex_foreign_spec = \<lparr>spec_Annotations = [annotations_ContainerManager \<mapsto> ''libpod'',
                                           annotations_Name \<mapsto> ''web''],
                      spec_Process = None, spec_Linux = None\<rparr>"

definition ex_pod_spec :: Spec where
  "ex_pod_spec = \<lparr>spec_Annotations = [annotations_ContainerManager \<mapsto> ''libpod'',
                                       annotations_Name \<mapsto> ''pod-b'',
                                       annotations_ContainerID \<mapsto> ''p2'',
                                       annotations_ContainerName \<mapsto> ''infra-b''],
                  spec_Process = Some \<lparr>SelinuxLabel = []\<rparr>,
                  spec_Linux = Some \<lparr>MountLabel = [], Namespaces = []\<rparr>\<rparr>"

definition ex_env :: Env where
  "ex_env = \<lparr>FromContainerDirectory = (\<lambda>ident file. Inr ident),
             ContainerRunDirectory = (\<lambda>ident. Inr (''/run/'' @ ident)),
             ContainerDirectory = (\<lambda>ident. Inr (''/var/'' @ ident)),
             unmarshalSpec = (\<lambda>config.
                if config = ''c1'' then Inr ex_ctr_spec
                else if config = ''c2'' then Inr ex_foreign_spec
                else if config = ''p2'' then Inr ex_pod_spec
                else Inl ''unexpected end of JSON input''),
             unmarshalStringMap = (\<lambda>s. Inr Map.empty),
             unmarshalOther = (\<lambda>t s. None),
             time_Parse = (\<lambda>s. Inr 0),
             sandbox_New_err = (\<lambda>ident. None),
             oci_NewContainer_err = (\<lambda>ident. None),
             ManageNSLifecycle = True,
             sys = ex_sys,
             addSandboxPlatform = (\<lambda>sb levels. (None, levels)),
             removeSandboxPlatform = (\<lambda>sb levels. (None, levels)),
             FromDisk = (\<lambda>ctr. Inr ''created''),
             UpdateContainerStatus = (\<lambda>ctr. Inr ''stopped''),
             writeStateFile = (\<lambda>ctr. None),
             ReserveLabel = (\<lambda>l. None),
             stoppedFileExists = (\<lambda>ident. False),
             TruncIndex_Add = (\<lambda>ident idx.
                if ident \<in> set idx then Inl ''id already exists'' else Inr (idx @ [ident]))\<rparr>"

text \<open>A pinned network namespace of a sandbox, and a sandbox that holds a handle of
  every kind.\<close>

definition ex_ns :: Namespace where
  "ex_ns = \<lparr>ns = Some (NSHandle ''/var/run/netns/0b1c''), closed = False, initialized = True,
            nsType = ''net'', nsPath = ''/var/run/netns/0b1c''\<rparr>"




text \<open>Two relations between the state after a call and the state before it: the name
  registrars are the same; every reservation held afterwards was held before (with the
  same id), so no name has been newly reserved.\<close>

definition same_names :: "ContainerServer \<Rightarrow> ContainerServer \<Rightarrow> bool" where
  "same_names c' c = (ctrNameIndex c' = ctrNameIndex c \<and> podNameIndex c' = podNameIndex c)"

definition no_new_names :: "ContainerServer \<Rightarrow> ContainerServer \<Rightarrow> bool" where
  "no_new_names c' c =
     (ctrNameIndex c' \<subseteq>\<^sub>m ctrNameIndex c \<and> podNameIndex c' \<subseteq>\<^sub>m podNameIndex c)"

section \<open>Verified properties\<close>

subsection \<open>Stores\<close>

lemma store_Get_Add_same: "store_Get k (store_Add k v st) = Some v"
  by (simp add: store_Get_def store_Add_def update_conv')


subsection \<open>Name registrars\<close>

lemma Release_absent: "r n = None \<Longrightarrow> Release n r = r"
  by (simp add: Release_def fun_upd_idem)

lemma Reserve_free: "r n = None \<Longrightarrow> Reserve n i r = Inr (r(n \<mapsto> i))"
  by (simp add: Reserve_def)

lemma Reserve_held_same: "r n = Some i \<Longrightarrow> Reserve n i r = Inr r"
  by (simp add: Reserve_def)

lemma Reserve_held_other: "r n = Some i \<Longrightarrow> i' \<noteq> i \<Longrightarrow> Reserve n i' r = Inl ErrNameReserved"
  by (simp add: Reserve_def)

lemma Reserve_Inr_holds: "Reserve n i r = Inr r' \<Longrightarrow> r' n = Some i"
  by (auto simp: Reserve_def split: option.splits if_splits)

lemma Release_frees: "Release n r n = None"
  by (simp add: Release_def)

lemma ctr_registrar:
  "(ctrNameIndex c n = None \<longrightarrow> fst (ReserveContainerName i n c) = Inr n)
   \<and> (ReserveContainerName i n c = (Inr n, c1) \<longrightarrow>
        ReserveContainerName i n c1 = (Inr n, c1)
      \<and> (i' \<noteq> i \<longrightarrow> ReserveContainerName i' n c1 =
            (Inl (Errorf ''error reserving ctr name %s for id %s: %v'' [S n, S i', E ErrNameReserved]), c1))
      \<and> fst (ReserveContainerName i' n (ReleaseContainerName n c1)) = Inr n)
   \<and> (ctrNameIndex c n = None \<longrightarrow> ReleaseContainerName n c = c)"
proof (intro conjI impI)
  assume "ctrNameIndex c n = None"
  then show "fst (ReserveContainerName i n c) = Inr n"
    by (simp add: ReserveContainerName_def Reserve_free)
next
  assume a: "ReserveContainerName i n c = (Inr n, c1)"
  then obtain r where r: "Reserve n i (ctrNameIndex c) = Inr r" and c1: "c1 = c\<lparr>ctrNameIndex := r\<rparr>"
    by (auto simp: ReserveContainerName_def split: sum.splits)
  have held: "ctrNameIndex c1 n = Some i"
    using Reserve_Inr_holds [OF r] c1 by simp
  show "ReserveContainerName i n c1 = (Inr n, c1)"
    using held by (simp add: ReserveContainerName_def Reserve_held_same)
  show "fst (ReserveContainerName i' n (ReleaseContainerName n c1)) = Inr n"
    by (simp add: ReserveContainerName_def ReleaseContainerName_def Reserve_free Release_frees)
  assume "i' \<noteq> i"
  then show "ReserveContainerName i' n c1 =
      (Inl (Errorf ''error reserving ctr name %s for id %s: %v'' [S n, S i', E ErrNameReserved]), c1)"
    using held by (simp add: ReserveContainerName_def Reserve_held_other)
next
  assume "ctrNameIndex c n = None"
  then show "ReleaseContainerName n c = c"
    by (simp add: ReleaseContainerName_def Release_absent)
qed

lemma pod_registrar:
  "(podNameIndex c n = None \<longrightarrow> fst (ReservePodName i n c) = Inr n)
   \<and> (ReservePodName i n c = (Inr n, c1) \<longrightarrow>
        ReservePodName i n c1 = (Inr n, c1)
      \<and> (i' \<noteq> i \<longrightarrow> ReservePodName i' n c1 =
            (Inl (Errorf ''error reserving pod name %s for id %s: %v'' [S n, S i', E ErrNameReserved]), c1))
      \<and> fst (ReservePodName i' n (ReleasePodName n c1)) = Inr n)
   \<and> (podNameIndex c n = None \<longrightarrow> ReleasePodName n c = c)"
proof (intro conjI impI)
  assume "podNameIndex c n = None"
  then show "fst (ReservePodName i n c) = Inr n"
    by (simp add: ReservePodName_def Reserve_free)
next
  assume a: "ReservePodName i n c = (Inr n, c1)"
  then obtain r where r: "Reserve n i (podNameIndex c) = Inr r" and c1: "c1 = c\<lparr>podNameIndex := r\<rparr>"
    by (auto simp: ReservePodName_def split: sum.splits)
  have held: "podNameIndex c1 n = Some i"
    using Reserve_Inr_holds [OF r] c1 by simp
  show "ReservePodName i n c1 = (Inr n, c1)"
    using held by (simp add: ReservePodName_def Reserve_held_same)
  show "fst (ReservePodName i' n (ReleasePodName n c1)) = Inr n"
    by (simp add: ReservePodName_def ReleasePodName_def Reserve_free Release_frees)
  assume "i' \<noteq> i"
  then show "ReservePodName i' n c1 =
      (Inl (Errorf ''error reserving pod name %s for id %s: %v'' [S n, S i', E ErrNameReserved]), c1)"
    using held by (simp add: ReservePodName_def Reserve_held_other)
next
  assume "podNameIndex c n = None"
  then show "ReleasePodName n c = c"
    by (simp add: ReleasePodName_def Release_absent)
qed

text \<open>
  Claim C3.  For both registrars (container names and pod names): reserving a free name
  succeeds; reserving the same name for the same id again succeeds and changes nothing;
  reserving it for another id fails with the already-reserved error; after a release the
  name can be reserved again by anyone; releasing a name that is not reserved changes
  nothing.
\<close>

theorem name_reservation:
  "(ctrNameIndex c n = None \<longrightarrow> fst (ReserveContainerName i n c) = Inr n)
   \<and> (ReserveContainerName i n c = (Inr n, c1) \<longrightarrow>
        ReserveContainerName i n c1 = (Inr n, c1)
      \<and> (i' \<noteq> i \<longrightarrow> ReserveContainerName i' n c1 =
            (Inl (Errorf ''error reserving ctr name %s for id %s: %v'' [S n, S i', E ErrNameReserved]), c1))
      \<and> fst (ReserveContainerName i' n (ReleaseContainerName n c1)) = Inr n)
   \<and> (ctrNameIndex c n = None \<longrightarrow> ReleaseContainerName n c = c)
   \<and> (podNameIndex c n = None \<longrightarrow> fst (ReservePodName i n c) = Inr n)
   \<and> (ReservePodName i n c = (Inr n, c2) \<longrightarrow>
        ReservePodName i n c2 = (Inr n, c2)
      \<and> (i' \<noteq> i \<longrightarrow> ReservePodName i' n c2 =
            (Inl (Errorf ''error reserving pod name %s for id %s: %v'' [S n, S i', E ErrNameReserved]), c2))
      \<and> fst (ReservePodName i' n (ReleasePodName n c2)) = Inr n)
   \<and> (podNameIndex c n = None \<longrightarrow> ReleasePodName n c = c)"
  using ctr_registrar [of c n i c1 i'] pod_registrar [of c n i c2 i'] by blast

theorem name_reservation_witness:
  "ctrNameIndex New ''c1'' = None
   \<and> podNameIndex New ''c1'' = None
   \<and> ReserveContainerName ''id1'' ''c1'' New = (Inr ''c1'', New\<lparr>ctrNameIndex := [''c1'' \<mapsto> ''id1'']\<rparr>)
   \<and> ReservePodName ''id1'' ''c1'' New = (Inr ''c1'', New\<lparr>podNameIndex := [''c1'' \<mapsto> ''id1'']\<rparr>)
   \<and> ''id2'' \<noteq> ''id1''
   \<and> ReserveContainerName ''id2'' ''c1'' (New\<lparr>ctrNameIndex := [''c1'' \<mapsto> ''id1'']\<rparr>) =
        (Inl (Errorf ''error reserving ctr name %s for id %s: %v''
               [S ''c1'', S ''id2'', E ErrNameReserved]), New\<lparr>ctrNameIndex := [''c1'' \<mapsto> ''id1'']\<rparr>)
   \<and> ReservePodName ''id2'' ''c1'' (New\<lparr>podNameIndex := [''c1'' \<mapsto> ''id1'']\<rparr>) =
        (Inl (Errorf ''error reserving pod name %s for id %s: %v''
               [S ''c1'', S ''id2'', E ErrNameReserved]), New\<lparr>podNameIndex := [''c1'' \<mapsto> ''id1'']\<rparr>)
   \<and> ReleaseContainerName ''c1'' New = New \<and> ReleasePodName ''c1'' New = New"
proof -
  have h1: "ctrNameIndex New ''c1'' = None" and h2: "podNameIndex New ''c1'' = None"
    by (simp_all add: New_def)
  have h3: "ReserveContainerName ''id1'' ''c1'' New = (Inr ''c1'', New\<lparr>ctrNameIndex := [''c1'' \<mapsto> ''id1'']\<rparr>)"
    by (simp add: ReserveContainerName_def Reserve_def New_def)
  have h4: "ReservePodName ''id1'' ''c1'' New = (Inr ''c1'', New\<lparr>podNameIndex := [''c1'' \<mapsto> ''id1'']\<rparr>)"
    by (simp add: ReservePodName_def Reserve_def New_def)
  have h5: "''id2'' \<noteq> ''id1''" by simp
  show ?thesis
    using name_reservation [of New "''c1''" "''id1''" "New\<lparr>ctrNameIndex := [''c1'' \<mapsto> ''id1'']\<rparr>" "''id2''"
        "New\<lparr>podNameIndex := [''c1'' \<mapsto> ''id1'']\<rparr>"] h1 h2 h3 h4 h5
    by blast
qed

subsection \<open>Listing containers\<close>

lemma applyFilters_eq:
  "applyFilters flts x acc = acc @ replicate (length (filter (\<lambda>f. f x) flts)) x"
  by (induction flts arbitrary: acc) (auto simp: replicate_app_Cons_same)

lemma filterLoop_eq:
  "filterLoop flts xs acc = acc @ concat (map (\<lambda>x. replicate (length (filter (\<lambda>f. f x) flts)) x) xs)"
  by (induction xs arbitrary: acc) (auto simp: applyFilters_eq)

lemma count_list_replicate_same: "count_list (replicate k c) c = k"
  by (induction k) auto

lemma count_list_replicate_other: "x \<noteq> c \<Longrightarrow> count_list (replicate k x) c = 0"
  by (induction k) auto

lemma count_concat_replicate:
  "count_list (concat (map (\<lambda>x. replicate (g x) x) xs)) c = count_list xs c * g c"
  by (induction xs) (auto simp: count_list_replicate_same count_list_replicate_other)

lemma ListContainers_count:
  "filters \<noteq> [] \<Longrightarrow>
   count_list (ListContainers filters c) ctr =
     count_list (listContainers c) ctr * length (filter (\<lambda>f. f ctr) filters)"
  by (simp add: ListContainers_def Let_def filterLoop_eq count_concat_replicate)

text \<open>The invariant holds initially and is kept by the two writers of the containers
  store.\<close>

lemma store_wf_New: "store_wf (containers New)"
  by (simp add: store_wf_def New_def)

lemma store_wf_Add: "store_wf st \<Longrightarrow> store_wf (store_Add (ctr_ID ctr) ctr st)"
proof (induction st)
  case Nil
  then show ?case by (simp add: store_wf_def store_Add_def)
next
  case (Cons a st)
  then show ?case
    by (cases a) (force simp: store_wf_def store_Add_def dom_update)
qed

lemma store_wf_Delete: "store_wf st \<Longrightarrow> store_wf (store_Delete k st)"
  by (induction st) (auto simp: store_wf_def store_Delete_def AList.delete_eq)

lemma store_wf_AddContainer:
  "store_wf (containers c) \<Longrightarrow> store_wf (containers (AddContainer ctr c))"
  by (simp add: AddContainer_def store_wf_Add split: option.splits)

lemma store_wf_RemoveContainer:
  "store_wf (containers c) \<Longrightarrow> store_wf (containers (RemoveContainer ctr c))"
  by (simp add: RemoveContainer_def Let_def store_wf_Delete split: option.splits)

lemma store_wf_listed_once:
  "store_wf st \<Longrightarrow> store_Get (ctr_ID ctr) st = Some ctr \<Longrightarrow> count_list (store_List st) ctr = 1"
proof (induction st)
  case Nil
  then show ?case by (simp add: store_Get_def)
next
  case (Cons a st)
  obtain k v where a: "a = (k, v)" by (cases a)
  from Cons.prems a have wf: "store_wf st" and kv: "ctr_ID v = k" and nk: "k \<notin> fst ` set st"
    by (auto simp: store_wf_def)
  show ?case
  proof (cases "k = ctr_ID ctr")
    case True
    with Cons.prems a have v: "v = ctr" by (simp add: store_Get_def)
    have "count_list (store_List st) ctr = 0"
    proof (rule ccontr)
      assume "count_list (store_List st) ctr \<noteq> 0"
      then have "ctr \<in> set (store_List st)" by (metis count_notin)
      then obtain k' where m: "(k', ctr) \<in> set st" by (auto simp: store_List_def)
      with wf have "ctr_ID ctr = k'" by (auto simp: store_wf_def list_all_iff)
      with m nk True show False by force
    qed
    with a v show ?thesis by (simp add: store_List_def)
  next
    case False
    with Cons.prems a have g: "store_Get (ctr_ID ctr) st = Some ctr" by (simp add: store_Get_def)
    from False kv have "v \<noteq> ctr" by auto
    with Cons.IH [OF wf g] a show ?thesis by (simp add: store_List_def)
  qed
qed

text \<open>
  Claim C10.  A stored container that satisfies \<open>m\<close> of the \<open>k \<ge> 1\<close> filters is
  returned exactly \<open>m\<close> times by \<^verbatim>\<open>ListContainers\<close>; with no filter it is returned
  exactly once.
\<close>

theorem ListContainers_multiplicity:
  "store_wf (containers c) \<and> store_Get (ctr_ID ctr) (containers c) = Some ctr \<longrightarrow>
     (filters \<noteq> [] \<longrightarrow>
        count_list (ListContainers filters c) ctr = length (filter (\<lambda>f. f ctr) filters))
     \<and> (filters = [] \<longrightarrow> count_list (ListContainers filters c) ctr = 1)"
proof (intro impI conjI)
  assume a: "store_wf (containers c) \<and> store_Get (ctr_ID ctr) (containers c) = Some ctr"
  then have one: "count_list (listContainers c) ctr = 1"
    by (simp add: listContainers_def store_wf_listed_once)
  { assume "filters \<noteq> []"
    then show "count_list (ListContainers filters c) ctr = length (filter (\<lambda>f. f ctr) filters)"
      using ListContainers_count [of filters c ctr] one by simp }
  { assume "filters = []"
    then show "count_list (ListContainers filters c) ctr = 1"
      using one by (simp add: ListContainers_def) }
qed


theorem ListContainers_multiplicity_witness:
  "store_wf (containers (AddContainer ex_ctr ex_server))
   \<and> store_Get (ctr_ID ex_ctr) (containers (AddContainer ex_ctr ex_server)) = Some ex_ctr
   \<and> count_list (ListContainers [\<lambda>c. ctr_Sandbox c = ''p1'', \<lambda>c. ctr_Name c = ''nginx'',
                     \<lambda>c. ctr_Image c = ''redis''] (AddContainer ex_ctr ex_server)) ex_ctr = 2"
proof -
  have c: "containers (AddContainer ex_ctr ex_server) = [(''c1'', ex_ctr)]"
    by (simp add: AddContainer_def ex_server_def ex_ctr_def New_def store_Get_def store_Add_def)
  have h: "store_wf (containers (AddContainer ex_ctr ex_server))
      \<and> store_Get (ctr_ID ex_ctr) (containers (AddContainer ex_ctr ex_server)) = Some ex_ctr"
    unfolding c by (simp add: store_wf_def store_Get_def ex_ctr_def)
  have f: "length (filter (\<lambda>f. f ex_ctr) [\<lambda>c. ctr_Sandbox c = ''p1'', \<lambda>c. ctr_Name c = ''nginx'',
                     \<lambda>c. ctr_Image c = ''redis'']) = 2"
    by (simp add: ex_ctr_def)
  show ?thesis
    using ListContainers_multiplicity [of "AddContainer ex_ctr ex_server" ex_ctr
        "[\<lambda>c. ctr_Sandbox c = ''p1'', \<lambda>c. ctr_Name c = ''nginx'', \<lambda>c. ctr_Image c = ''redis'']"] h f
    by simp
qed

subsection \<open>Containers and their sandbox in the state store\<close>

text \<open>
  Claim C9.  With a sandbox id that names no stored sandbox, \<^verbatim>\<open>AddContainer\<close> and
  \<^verbatim>\<open>RemoveContainer\<close> return the state as it was (they have no error result); so
  whenever \<^verbatim>\<open>AddContainer\<close> changes the containers map, the container's sandbox is in
  the sandboxes map, before and after.
\<close>

theorem container_needs_sandbox:
  "(store_Get (ctr_Sandbox ctr) (sandboxes c) = None \<longrightarrow>
      AddContainer ctr c = c \<and> RemoveContainer ctr c = c)
   \<and> (containers (AddContainer ctr c) \<noteq> containers c \<longrightarrow>
      HasSandbox (ctr_Sandbox ctr) c \<and> HasSandbox (ctr_Sandbox ctr) (AddContainer ctr c))
   \<and> (containers (RemoveContainer ctr c) \<noteq> containers c \<longrightarrow> HasSandbox (ctr_Sandbox ctr) c)"
  by (auto simp: AddContainer_def RemoveContainer_def HasSandbox_def Let_def store_Get_Add_same
          split: option.splits)

theorem container_needs_sandbox_witness:
  "store_Get (ctr_Sandbox ex_ctr) (sandboxes New) = None
   \<and> AddContainer ex_ctr New = New \<and> RemoveContainer ex_ctr New = New
   \<and> containers (AddContainer ex_ctr ex_server) \<noteq> containers ex_server
   \<and> HasSandbox (ctr_Sandbox ex_ctr) ex_server
   \<and> containers (RemoveContainer ex_ctr (AddContainer ex_ctr ex_server))
       \<noteq> containers (AddContainer ex_ctr ex_server)
   \<and> HasSandbox (ctr_Sandbox ex_ctr) (AddContainer ex_ctr ex_server)"
proof -
  have h1: "store_Get (ctr_Sandbox ex_ctr) (sandboxes New) = None"
    by (simp add: New_def store_Get_def)
  have h2: "containers (AddContainer ex_ctr ex_server) \<noteq> containers ex_server"
    by (simp add: AddContainer_def ex_server_def ex_ctr_def New_def store_Get_def store_Add_def)
  have h3: "containers (RemoveContainer ex_ctr (AddContainer ex_ctr ex_server))
       \<noteq> containers (AddContainer ex_ctr ex_server)"
    by (simp add: AddContainer_def RemoveContainer_def ex_server_def ex_ctr_def New_def
          store_Get_def store_Add_def store_Delete_def AList.delete_eq Let_def)
  show ?thesis
    using container_needs_sandbox [of ex_ctr New] container_needs_sandbox [of ex_ctr ex_server]
      container_needs_sandbox [of ex_ctr "AddContainer ex_ctr ex_server"] h1 h2 h3
    by blast
qed

subsection \<open>Removing a sandbox\<close>



subsection \<open>Removing a namespace\<close>

lemma Remove_closed: "closed n \<Longrightarrow> Remove sy' n w = (None, n, w)"
  by (simp add: Remove_def)

text \<open>
  Claim C5.  The first successful \<^verbatim>\<open>Remove\<close> of a managed handle (open handle, pinned
  path, not yet closed) closes the handle, unmounts the path and deletes the path, in
  this order, and records the handle as closed; every later \<^verbatim>\<open>Remove\<close> of that handle,
  whatever the system does, returns nil and makes no call at all.
\<close>

theorem Remove_idempotent:
  assumes "\<not> closed n" and "ns n = Some h" and "nsPath n \<noteq> []"
    and "Remove sy n w = (None, n', w')"
  shows "w' = w @ [NSClose h, UtilsUnmount (nsPath n), RemoveAll (nsPath n)]
       \<and> n' = n\<lparr>closed := True\<rparr>
       \<and> (\<forall>sy' w''. Remove sy' n' w'' = (None, n', w''))"
proof -
  from assms have n': "n' = n\<lparr>closed := True\<rparr>"
    and w': "w' = w @ [NSClose h, UtilsUnmount (nsPath n), RemoveAll (nsPath n)]"
    by (auto simp: Remove_def Close_def Path_def Let_def split: option.splits if_splits)
  from n' have "closed n'" by simp
  then have "\<forall>sy' w''. Remove sy' n' w'' = (None, n', w'')"
    by (simp add: Remove_closed)
  with n' w' show ?thesis by simp
qed

theorem Remove_idempotent_witness:
  "\<not> closed ex_ns \<and> ns ex_ns = Some (NSHandle ''/var/run/netns/0b1c'') \<and> nsPath ex_ns \<noteq> []
   \<and> Remove ex_sys ex_ns [] =
       (None, ex_ns\<lparr>closed := True\<rparr>,
        [NSClose (NSHandle ''/var/run/netns/0b1c''), UtilsUnmount ''/var/run/netns/0b1c'',
         RemoveAll ''/var/run/netns/0b1c''])
   \<and> Remove ex_sys (ex_ns\<lparr>closed := True\<rparr>)
        [NSClose (NSHandle ''/var/run/netns/0b1c''), UtilsUnmount ''/var/run/netns/0b1c'',
         RemoveAll ''/var/run/netns/0b1c''] =
       (None, ex_ns\<lparr>closed := True\<rparr>,
        [NSClose (NSHandle ''/var/run/netns/0b1c''), UtilsUnmount ''/var/run/netns/0b1c'',
         RemoveAll ''/var/run/netns/0b1c''])"
proof -
  have h1: "\<not> closed ex_ns" and h2: "ns ex_ns = Some (NSHandle ''/var/run/netns/0b1c'')"
    and h3: "nsPath ex_ns \<noteq> []"
    by (simp_all add: ex_ns_def)
  have h4: "Remove ex_sys ex_ns [] =
       (None, ex_ns\<lparr>closed := True\<rparr>,
        [NSClose (NSHandle ''/var/run/netns/0b1c''), UtilsUnmount ''/var/run/netns/0b1c'',
         RemoveAll ''/var/run/netns/0b1c''])"
    by (simp add: Remove_def Close_def Path_def ex_ns_def ex_sys_def)
  show ?thesis
    using Remove_idempotent [OF h1 h2 h3 h4] h1 h2 h3 h4 by simp
qed

subsection \<open>Pinning namespaces: failure of the helper\<close>

lemma pinnsArgsLoop_paths:
  "pinnsArgsLoop sy cfg u nsTypes args infos = Inr (args', infos') \<Longrightarrow>
   map info_path infos' =
     map info_path infos @ map (\<lambda>t. filepath_Join sy [NamespacesDir cfg, t @ ''ns'', u]) nsTypes"
  by (induction nsTypes arbitrary: args infos) (auto split: option.splits)

lemma cleanupLoop_log:
  "snd (cleanupLoop sy infos failed w) = w @ map (\<lambda>i. SysUnmount (info_path i) MNT_DETACH) infos"
  by (induction infos arbitrary: failed w) auto

lemma cleanupLoop_failed_subset:
  "set (fst (cleanupLoop sy infos failed w)) \<subseteq> set failed \<union> info_path ` set infos"
  by (induction infos arbitrary: failed w) (fastforce split: option.splits)+

lemma cleanupLoop_length:
  "length failed \<le> length (fst (cleanupLoop sy infos failed w))"
proof (induction infos arbitrary: failed w)
  case Nil
  then show ?case by simp
next
  case (Cons a infos)
  show ?case
  proof (cases "unix_Unmount sy w (info_path a) MNT_DETACH")
    case None
    then show ?thesis using Cons.IH [of failed] by simp
  next
    case (Some e)
    have "length (failed @ [info_path a]) \<le>
        length (fst (cleanupLoop sy infos (failed @ [info_path a])
                      (w @ [SysUnmount (info_path a) MNT_DETACH])))"
      by (rule Cons.IH)
    then show ?thesis using Some by simp
  qed
qed

lemma cleanupLoop_none_failed:
  "fst (cleanupLoop sy infos failed w) = failed \<longleftrightarrow>
   (\<forall>i<length infos.
      unix_Unmount sy (w @ map (\<lambda>q. SysUnmount (info_path q) MNT_DETACH) (take i infos))
        (info_path (infos ! i)) MNT_DETACH = None)"
proof (induction infos arbitrary: failed w)
  case Nil
  then show ?case by simp
next
  case (Cons a infos)
  show ?case
  proof (cases "unix_Unmount sy w (info_path a) MNT_DETACH")
    case None
    have "(\<forall>i<length (a # infos).
        unix_Unmount sy (w @ map (\<lambda>q. SysUnmount (info_path q) MNT_DETACH) (take i (a # infos)))
          (info_path ((a # infos) ! i)) MNT_DETACH = None)
      \<longleftrightarrow> (\<forall>i<length infos.
        unix_Unmount sy ((w @ [SysUnmount (info_path a) MNT_DETACH]) @
            map (\<lambda>q. SysUnmount (info_path q) MNT_DETACH) (take i infos))
          (info_path (infos ! i)) MNT_DETACH = None)"
      using None by (simp add: All_less_Suc2)
    then show ?thesis using None Cons.IH [of failed "w @ [SysUnmount (info_path a) MNT_DETACH]"]
      by simp
  next
    case (Some e)
    have "length (failed @ [info_path a]) \<le>
        length (fst (cleanupLoop sy infos (failed @ [info_path a])
                      (w @ [SysUnmount (info_path a) MNT_DETACH])))"
      by (rule cleanupLoop_length)
    then have "fst (cleanupLoop sy (a # infos) failed w) \<noteq> failed"
      using Some by auto
    moreover have "\<not> (\<forall>i<length (a # infos).
        unix_Unmount sy (w @ map (\<lambda>q. SysUnmount (info_path q) MNT_DETACH) (take i (a # infos)))
          (info_path ((a # infos) ! i)) MNT_DETACH = None)"
      using Some by (auto intro!: exI [of _ 0])
    ultimately show ?thesis by blast
  qed
qed


lemma pinnsArgsLoop_valid:
  "\<forall>t\<in>set nsTypes. typeToArg t \<noteq> None \<Longrightarrow>
   pinnsArgsLoop sy cfg u nsTypes args infos =
     Inr (args @ map (\<lambda>t. the (typeToArg t)) nsTypes,
          infos @ map (\<lambda>t. \<lparr>info_path = filepath_Join sy [NamespacesDir cfg, t @ ''ns'', u],
                              info_nsType = t\<rparr>) nsTypes)"
  by (induction nsTypes arbitrary: args infos) auto

lemma cleanupLoop_none_failed_paths:
  "fst (cleanupLoop sy infos [] w) = [] \<longleftrightarrow>
   (\<forall>i<length infos.
      unix_Unmount sy (w @ map (\<lambda>p. SysUnmount p MNT_DETACH) (take i (map info_path infos)))
        (map info_path infos ! i) MNT_DETACH = None)"
  by (simp add: cleanupLoop_none_failed take_map o_def)

text \<open>
  Claim C6.  When the helper is run (every requested kind is valid) and exits with an
  error, \<^verbatim>\<open>pinNamespaces\<close> calls \<^verbatim>\<open>unix.Unmount\<close> with \<^verbatim>\<open>MNT_DETACH\<close> on the would-be
  path of every requested kind, in order, and returns an error and no namespace list:
  the helper's failure when every unmount succeeded, otherwise the cleanup failure
  naming the paths that could not be unmounted (both carry the helper's output and
  error).
\<close>

theorem pinNamespaces_helper_failure:
  assumes valid: "\<forall>t\<in>set nsTypes. typeToArg t \<noteq> None"
    and args: "args = [''-d'', NamespacesDir cfg, ''-f'', uuid_New sy] @
                 map (\<lambda>t. the (typeToArg t)) nsTypes"
    and paths: "paths = map (\<lambda>t. filepath_Join sy [NamespacesDir cfg, t @ ''ns'', uuid_New sy])
                 nsTypes"
    and failure: "exec_Output sy (PinnsPath cfg) args = (output, Some err)"
  shows "\<exists>e. pinNamespaces sy nsTypes cfg w =
           (Inl e, w @ Exec (PinnsPath cfg) args # map (\<lambda>p. SysUnmount p MNT_DETACH) paths)
       \<and> (if \<forall>i<length paths.
              unix_Unmount sy
                (w @ Exec (PinnsPath cfg) args # map (\<lambda>p. SysUnmount p MNT_DETACH) (take i paths))
                (paths ! i) MNT_DETACH = None
          then e = Errorf ''failed to pin namespaces %v: %s %v''
                     [L nsTypes, S output, E (External err)]
          else \<exists>failedUmounts. failedUmounts \<noteq> [] \<and> set failedUmounts \<subseteq> set paths
                 \<and> e = Errorf ''failed to cleanup %v after pinns failure %s %v''
                         [L failedUmounts, S output, E (External err)])"
proof -
  define infos where "infos = map (\<lambda>t. \<lparr>info_path =
      filepath_Join sy [NamespacesDir cfg, t @ ''ns'', uuid_New sy], info_nsType = t\<rparr>) nsTypes"
  define w1 where "w1 = w @ [Exec (PinnsPath cfg) args]"
  have loop: "pinnsArgsLoop sy cfg (uuid_New sy) nsTypes
      [''-d'', NamespacesDir cfg, ''-f'', uuid_New sy] [] = Inr (args, infos)"
    using pinnsArgsLoop_valid [OF valid, of sy cfg "uuid_New sy"
        "[''-d'', NamespacesDir cfg, ''-f'', uuid_New sy]" "[]"]
    by (simp add: args infos_def)
  have ps: "map info_path infos = paths"
    by (simp add: infos_def paths o_def)
  obtain failed w2 where cl: "cleanupLoop sy infos [] w1 = (failed, w2)"
    by (cases "cleanupLoop sy infos [] w1")
  have w2: "w2 = w1 @ map (\<lambda>p. SysUnmount p MNT_DETACH) paths"
    using cleanupLoop_log [of sy infos "[]" w1] cl ps [symmetric] by (simp add: o_def)
  have sub: "set failed \<subseteq> set paths"
    using cleanupLoop_failed_subset [of sy infos "[]" w1] cl ps [symmetric] by simp
  have none: "failed = [] \<longleftrightarrow>
      (\<forall>i<length paths.
         unix_Unmount sy (w1 @ map (\<lambda>p. SysUnmount p MNT_DETACH) (take i paths))
           (paths ! i) MNT_DETACH = None)"
  proof -
    have len: "length infos = length paths" using ps by (metis length_map)
    show ?thesis
      using cleanupLoop_none_failed_paths [of sy infos w1] cl ps len by simp
  qed
  have run: "pinNamespaces sy nsTypes cfg w =
      (Inl (if failed \<noteq> []
            then Errorf ''failed to cleanup %v after pinns failure %s %v''
                   [L failed, S output, E (External err)]
            else Errorf ''failed to pin namespaces %v: %s %v''
                   [L nsTypes, S output, E (External err)]), w2)"
    using loop failure cl by (simp add: pinNamespaces_def Let_def w1_def)
  show ?thesis
  proof (cases "failed = []")
    case True
    with run none w2 show ?thesis by (simp add: w1_def)
  next
    case False
    with run none w2 sub show ?thesis by (auto simp: w1_def)
  qed
qed

theorem pinNamespaces_helper_failure_witness:
  "typeToArg NETNS \<noteq> None \<and> typeToArg IPCNS \<noteq> None
   \<and> exec_Output ex_sys ''/usr/bin/pinns'' [''-d'', ''/var/run'', ''-f'', ''0b1c'', ''-n'', ''-i'']
       = ([], Some ''exit status 1'')
   \<and> pinNamespaces ex_sys [NETNS, IPCNS] \<lparr>NamespacesDir = ''/var/run'', PinnsPath = ''/usr/bin/pinns''\<rparr> []
       = (Inl (Errorf ''failed to pin namespaces %v: %s %v''
                 [L [''net'', ''ipc''], S [], E (External ''exit status 1'')]),
          [Exec ''/usr/bin/pinns'' [''-d'', ''/var/run'', ''-f'', ''0b1c'', ''-n'', ''-i''],
           SysUnmount ''//var/run/netns/0b1c'' MNT_DETACH,
           SysUnmount ''//var/run/ipcns/0b1c'' MNT_DETACH])"
proof -
  let ?cfg = "\<lparr>NamespacesDir = ''/var/run'', PinnsPath = ''/usr/bin/pinns''\<rparr>"
  have valid: "\<forall>t\<in>set [NETNS, IPCNS]. typeToArg t \<noteq> None"
    by (simp add: typeToArg_def NETNS_def IPCNS_def UTSNS_def USERNS_def)
  have args: "[''-d'', ''/var/run'', ''-f'', ''0b1c'', ''-n'', ''-i''] =
      [''-d'', NamespacesDir ?cfg, ''-f'', uuid_New ex_sys] @ map (\<lambda>t. the (typeToArg t)) [NETNS, IPCNS]"
    by (simp add: typeToArg_def NETNS_def IPCNS_def UTSNS_def USERNS_def ex_sys_def)
  have paths: "[''//var/run/netns/0b1c'', ''//var/run/ipcns/0b1c''] =
      map (\<lambda>t. filepath_Join ex_sys [NamespacesDir ?cfg, t @ ''ns'', uuid_New ex_sys]) [NETNS, IPCNS]"
    by (simp add: NETNS_def IPCNS_def ex_sys_def)
  have failure: "exec_Output ex_sys (PinnsPath ?cfg) [''-d'', ''/var/run'', ''-f'', ''0b1c'', ''-n'', ''-i'']
      = ([], Some ''exit status 1'')"
    by (simp add: ex_sys_def)
  have ok: "\<forall>i<length [''//var/run/netns/0b1c'', ''//var/run/ipcns/0b1c''].
      unix_Unmount ex_sys
        ([] @ Exec (PinnsPath ?cfg) [''-d'', ''/var/run'', ''-f'', ''0b1c'', ''-n'', ''-i''] #
           map (\<lambda>p. SysUnmount p MNT_DETACH) (take i [''//var/run/netns/0b1c'', ''//var/run/ipcns/0b1c'']))
        ([''//var/run/netns/0b1c'', ''//var/run/ipcns/0b1c''] ! i) MNT_DETACH = None"
    by (simp add: ex_sys_def)
  show ?thesis
    using pinNamespaces_helper_failure [OF valid args paths failure, of "[]"] ok valid failure
    by (auto simp: NETNS_def IPCNS_def)
qed

subsection \<open>Joining a namespace path\<close>














subsection \<open>Exit status and output of the checkpoint/restore client\<close>









lemma all_less_1: "(\<forall>j<Suc 0. P j) \<longleftrightarrow> P 0"
  by simp



subsection \<open>Rehydration: names after a failed load\<close>

lemma same_names_refl [simp]: "same_names c c"
  by (simp add: same_names_def)

lemma same_names_trans: "same_names c'' c' \<Longrightarrow> same_names c' c \<Longrightarrow> same_names c'' c"
  by (simp add: same_names_def)

lemma same_names_AddContainer: "same_names (AddContainer ctr c) c"
  by (simp add: same_names_def AddContainer_def split: option.splits)

lemma same_names_updateSandbox: "same_names (updateSandbox ident f c) c"
  by (simp add: same_names_def updateSandbox_def split: option.splits)

lemma same_names_AddSandbox: "same_names (snd (AddSandbox env sb c)) c"
  by (simp add: same_names_def AddSandbox_def Let_def split: prod.splits)

lemma same_names_RemoveSandbox: "same_names (snd (RemoveSandbox env ident c)) c"
  by (simp add: same_names_def RemoveSandbox_def Let_def split: prod.splits option.splits)

lemma same_names_ctrIDIndex [simp]: "same_names (c'\<lparr>ctrIDIndex := x\<rparr>) c = same_names c' c"
  by (simp add: same_names_def)

lemma same_names_podIDIndex [simp]: "same_names (c'\<lparr>podIDIndex := x\<rparr>) c = same_names c' c"
  by (simp add: same_names_def)

lemma same_names_LoadContainer_reserved:
  "same_names (snd (LoadContainer_reserved env ident m name c)) c"
  by (simp add: LoadContainer_reserved_def Let_def same_names_AddContainer
        split: option.splits sum.splits prod.splits)

lemma same_names_upd2: "same_names (updateSandbox i f (updateSandbox j g c)) c"
  using same_names_trans [OF same_names_updateSandbox same_names_updateSandbox] .

lemma same_names_LoadSandbox_infra:
  "same_names (snd (LoadSandbox_infra env ident m sb processLabel cname c)) c"
  by (simp add: LoadSandbox_infra_def Let_def same_names_updateSandbox same_names_upd2
        split: option.splits sum.splits prod.splits)


lemma no_new_names_refl [simp]: "no_new_names c c"
  by (simp add: no_new_names_def)

lemma same_names_no_new: "same_names c'' c' \<Longrightarrow> no_new_names c' c \<Longrightarrow> no_new_names c'' c"
  by (simp add: same_names_def no_new_names_def)

lemma Reserve_Release_le: "Reserve n i r = Inr r' \<Longrightarrow> Release n r' \<subseteq>\<^sub>m r"
  by (auto simp: Reserve_def Release_def map_le_def split: option.splits if_splits)

lemma deferOnError_error:
  "deferOnError f r = (Return (Some e), c') \<Longrightarrow> \<exists>c''. r = (Return (Some e), c'') \<and> c' = f c''"
  by (auto simp: deferOnError_def split: prod.splits outcome.splits option.splits)

lemma ReserveContainerName_Inl: "ReserveContainerName i n c = (Inl e, c1) \<Longrightarrow> c1 = c"
  by (auto simp: ReserveContainerName_def split: sum.splits)

lemma ReservePodName_Inl: "ReservePodName i n c = (Inl e, c1) \<Longrightarrow> c1 = c"
  by (auto simp: ReservePodName_def split: sum.splits)

lemma ctr_reserve_release:
  assumes "ReserveContainerName i n c = (Inr name, c1)" and "same_names c2 c1"
  shows "no_new_names (ReleaseContainerName name c2) c"
proof -
  from assms(1) obtain r where r: "Reserve n i (ctrNameIndex c) = Inr r"
    and c1: "c1 = c\<lparr>ctrNameIndex := r\<rparr>" and name: "name = n"
    by (auto simp: ReserveContainerName_def split: sum.splits)
  from assms(2) c1 have "ctrNameIndex c2 = r" "podNameIndex c2 = podNameIndex c"
    by (simp_all add: same_names_def)
  then show ?thesis
    using Reserve_Release_le [OF r] name
    by (simp add: no_new_names_def ReleaseContainerName_def)
qed

lemma pod_reserve_release:
  assumes "ReservePodName i n c = (Inr name, c1)" and "no_new_names c2 c1"
  shows "no_new_names (ReleasePodName name c2) c"
proof -
  from assms(1) obtain r where r: "Reserve n i (podNameIndex c) = Inr r"
    and c1: "c1 = c\<lparr>podNameIndex := r\<rparr>" and name: "name = n"
    by (auto simp: ReservePodName_def split: sum.splits)
  from assms(2) c1 have a: "ctrNameIndex c2 \<subseteq>\<^sub>m ctrNameIndex c" and b: "podNameIndex c2 \<subseteq>\<^sub>m r"
    by (simp_all add: no_new_names_def)
  have "Release n (podNameIndex c2) \<subseteq>\<^sub>m Release n r"
    using b by (auto simp: Release_def map_le_def)
  with Reserve_Release_le [OF r] have "Release n (podNameIndex c2) \<subseteq>\<^sub>m podNameIndex c"
    by (blast intro: map_le_trans)
  with a name show ?thesis
    by (simp add: no_new_names_def ReleasePodName_def)
qed

lemma LoadContainer_error_names:
  assumes "LoadContainer env ident c = (Return (Some e), c')"
  shows "no_new_names c' c"
proof -
  consider (early) "c' = c"
    | (late) m name c1 where
        "ReserveContainerName ident (ann m annotations_Name) c = (Inr name, c1)"
        "deferOnError (ReleaseContainerName name) (LoadContainer_reserved env ident m name c1)
           = (Return (Some e), c')"
    using assms
    by (auto simp: LoadContainer_def split: sum.splits if_splits prod.splits
          dest: ReserveContainerName_Inl)
  then show ?thesis
  proof cases
    case early
    then show ?thesis by simp
  next
    case late
    from deferOnError_error [OF late(2)] obtain c'' where
      r: "LoadContainer_reserved env ident m name c1 = (Return (Some e), c'')"
      and c': "c' = ReleaseContainerName name c''" by blast
    have "same_names c'' c1"
      using same_names_LoadContainer_reserved [of env ident m name c1] r by simp
    from ctr_reserve_release [OF late(1) this] c' show ?thesis by simp
  qed
qed

lemma LoadSandbox_added_error_names:
  assumes "LoadSandbox_added env ident m sb pl c = (Return (Some e), c')"
  shows "no_new_names c' c"
proof -
  consider (early) "c' = c"
    | (late) cname c1 where
        "ReserveContainerName (ann m annotations_ContainerID) (ann m annotations_ContainerName) c
           = (Inr cname, c1)"
        "deferOnError (ReleaseContainerName cname) (LoadSandbox_infra env ident m sb pl cname c1)
           = (Return (Some e), c')"
    using assms
    by (auto simp: LoadSandbox_added_def split: sum.splits prod.splits
          dest: ReserveContainerName_Inl)
  then show ?thesis
  proof cases
    case early
    then show ?thesis by simp
  next
    case late
    from deferOnError_error [OF late(2)] obtain c'' where
      r: "LoadSandbox_infra env ident m sb pl cname c1 = (Return (Some e), c'')"
      and c': "c' = ReleaseContainerName cname c''" by blast
    have "same_names c'' c1"
      using same_names_LoadSandbox_infra [of env ident m sb pl cname c1] r by simp
    from ctr_reserve_release [OF late(1) this] c' show ?thesis by simp
  qed
qed

lemma LoadSandbox_named_error_names:
  assumes "LoadSandbox_named env ident m name c = (Return (Some e), c')"
  shows "no_new_names c' c"
proof -
  consider (early) "c' = c"
    | (add) sb err where "AddSandbox env sb c = (err, c')"
    | (late) sb pl c1 where "AddSandbox env sb c = (None, c1)"
        "deferOnError (\<lambda>c'. snd (RemoveSandbox env (sb_ID sb) c'))
           (LoadSandbox_added env ident m sb pl c1) = (Return (Some e), c')"
    using assms
    by (auto simp: LoadSandbox_named_def Let_def
          split: sum.splits prod.splits option.splits outcome.splits)
  then show ?thesis
  proof cases
    case early
    then show ?thesis by simp
  next
    case add
    then show ?thesis
      using same_names_no_new [OF same_names_AddSandbox no_new_names_refl, of env sb c] by simp
  next
    case late
    from deferOnError_error [OF late(2)] obtain c'' where
      r: "LoadSandbox_added env ident m sb pl c1 = (Return (Some e), c'')"
      and c': "c' = snd (RemoveSandbox env (sb_ID sb) c'')" by blast
    have 1: "no_new_names c'' c1" by (rule LoadSandbox_added_error_names [OF r])
    have "no_new_names c1 c"
      using same_names_no_new [OF same_names_AddSandbox no_new_names_refl, of env sb c] late(1)
      by simp
    with 1 have "no_new_names c'' c"
      by (auto simp: no_new_names_def intro: map_le_trans)
    then show ?thesis
      unfolding c' by (rule same_names_no_new [OF same_names_RemoveSandbox])
  qed
qed

lemma LoadSandbox_error_names:
  assumes "LoadSandbox env ident c = (Return (Some e), c')"
  shows "no_new_names c' c"
proof -
  consider (early) "c' = c"
    | (late) m name c1 where
        "ReservePodName ident (ann m annotations_Name) c = (Inr name, c1)"
        "deferOnError (ReleasePodName name) (LoadSandbox_named env ident m name c1)
           = (Return (Some e), c')"
    using assms
    by (auto simp: LoadSandbox_def split: sum.splits prod.splits dest: ReservePodName_Inl)
  then show ?thesis
  proof cases
    case early
    then show ?thesis by simp
  next
    case late
    from deferOnError_error [OF late(2)] obtain c'' where
      r: "LoadSandbox_named env ident m name c1 = (Return (Some e), c'')"
      and c': "c' = ReleasePodName name c''" by blast
    from pod_reserve_release [OF late(1) LoadSandbox_named_error_names [OF r]] c'
    show ?thesis by simp
  qed
qed

text \<open>
  Claim C2.  When \<^verbatim>\<open>LoadContainer\<close> or \<^verbatim>\<open>LoadSandbox\<close> returns an error, every
  reservation in the container-name and pod-name registrars afterwards was already
  there before the call: each name the call reserved has been released.
\<close>

theorem failed_load_releases_names:
  "(LoadContainer env ident c = (Return (Some e), c') \<longrightarrow>
      ctrNameIndex c' \<subseteq>\<^sub>m ctrNameIndex c \<and> podNameIndex c' \<subseteq>\<^sub>m podNameIndex c)
   \<and> (LoadSandbox env ident c = (Return (Some e), c') \<longrightarrow>
      ctrNameIndex c' \<subseteq>\<^sub>m ctrNameIndex c \<and> podNameIndex c' \<subseteq>\<^sub>m podNameIndex c)"
  using LoadContainer_error_names [of env ident c e c'] LoadSandbox_error_names [of env ident c e c']
  by (simp add: no_new_names_def)

lemmas ann_keys = annotations_ContainerManager_def annotations_Labels_def annotations_Name_def
  annotations_Metadata_def annotations_Annotations_def annotations_PortMappings_def
  annotations_NamespaceOptions_def annotations_RuntimeHandler_def
  annotations_SeccompProfilePath_def annotations_ContainerID_def annotations_ContainerName_def
  annotations_Created_def annotations_Image_def annotations_MountPoint_def
  annotations_Volumes_def annotations_SandboxID_def

lemmas load_defs = LoadContainer_def LoadContainer_reserved_def LoadSandbox_def
  LoadSandbox_named_def LoadSandbox_added_def LoadSandbox_infra_def joinNamespaces_def
  joinIfConfigured_def configNsPath_def ann_def ReserveContainerName_def ReservePodName_def
  Reserve_def Release_def ReleaseContainerName_def ReleasePodName_def deferOnError_def
  AddSandbox_def RemoveSandbox_def AddContainer_def GetSandbox_def updateSandbox_def
  ContainerStateFromDisk_def ContainerStateToDisk_def Sandbox_AddContainer_def
  store_Get_def store_Add_def store_Delete_def Let_def ContainerManagerCRIO_def
  NetworkNamespace_def IPCNamespace_def UTSNamespace_def UserNamespace_def

lemmas ex_defs = ex_env_def ex_ctr_spec_def ex_foreign_spec_def ex_pod_spec_def ex_server_def
  ex_sandbox_def New_def

lemma ex_LoadContainer_no_sandbox:
  "fst (LoadContainer ex_env ''c1'' New) =
     Return (Some (Errorf ''could not get sandbox with id %s, skipping'' [S ''p1'']))"
  by (simp add: load_defs ex_defs ann_keys)

lemma ex_LoadSandbox_bad_time:
  "fst (LoadSandbox (ex_env\<lparr>time_Parse := (\<lambda>s. Inl ''parsing time'')\<rparr>) ''p2'' New) =
     Return (Some (External ''parsing time''))"
  by (simp add: load_defs ex_defs ann_keys)

theorem failed_load_releases_names_witness:
  "LoadContainer ex_env ''c1'' New =
     (Return (Some (Errorf ''could not get sandbox with id %s, skipping'' [S ''p1''])),
      snd (LoadContainer ex_env ''c1'' New))
   \<and> ctrNameIndex (snd (LoadContainer ex_env ''c1'' New)) ''redis'' = None
   \<and> LoadSandbox (ex_env\<lparr>time_Parse := (\<lambda>s. Inl ''parsing time'')\<rparr>) ''p2'' New =
     (Return (Some (External ''parsing time'')),
      snd (LoadSandbox (ex_env\<lparr>time_Parse := (\<lambda>s. Inl ''parsing time'')\<rparr>) ''p2'' New))
   \<and> podNameIndex (snd (LoadSandbox (ex_env\<lparr>time_Parse := (\<lambda>s. Inl ''parsing time'')\<rparr>)
        ''p2'' New)) ''pod-b'' = None
   \<and> ctrNameIndex (snd (LoadSandbox (ex_env\<lparr>time_Parse := (\<lambda>s. Inl ''parsing time'')\<rparr>)
        ''p2'' New)) ''infra-b'' = None"
proof -
  let ?bad = "ex_env\<lparr>time_Parse := (\<lambda>s. Inl ''parsing time'')\<rparr>"
  have h1: "LoadContainer ex_env ''c1'' New =
     (Return (Some (Errorf ''could not get sandbox with id %s, skipping'' [S ''p1''])),
      snd (LoadContainer ex_env ''c1'' New))"
    using ex_LoadContainer_no_sandbox by (metis prod.collapse)
  have h2: "LoadSandbox ?bad ''p2'' New =
     (Return (Some (External ''parsing time'')), snd (LoadSandbox ?bad ''p2'' New))"
    using ex_LoadSandbox_bad_time by (metis prod.collapse)
  have e: "ctrNameIndex New = Map.empty" "podNameIndex New = Map.empty"
    by (simp_all add: New_def)
  from failed_load_releases_names [of ex_env "''c1''" New _ "snd (LoadContainer ex_env ''c1'' New)"] h1
  have a: "ctrNameIndex (snd (LoadContainer ex_env ''c1'' New)) \<subseteq>\<^sub>m Map.empty"
    by (simp add: e)
  from failed_load_releases_names [of ?bad "''p2''" New _ "snd (LoadSandbox ?bad ''p2'' New)"] h2
  have b: "ctrNameIndex (snd (LoadSandbox ?bad ''p2'' New)) \<subseteq>\<^sub>m Map.empty"
    "podNameIndex (snd (LoadSandbox ?bad ''p2'' New)) \<subseteq>\<^sub>m Map.empty"
    by (simp_all add: e)
  show ?thesis
    using h1 h2 a b by (auto simp: map_le_def dom_def)
qed

subsection \<open>Rehydration: entities of other managers\<close>










lemma StateFromDisk_not_sentinel [simp]:
  "ContainerStateFromDisk env ctr \<noteq> (Some ErrIsNonCrioContainer, x)"
  by (simp add: ContainerStateFromDisk_def Let_def split: sum.splits)








end
